theory Spec2Isabelle
  imports Complex_Main
begin

section \<open>AutoCare Pro: documents, stores and replies\<close>

text \<open>
  The backend keeps its data in document collections and answers each HTTP request from
  one handler. A collection is a list of documents, each carrying its \<open>_id\<close>; a handler
  is a function from the request, the caller and the collection to a reply and the new
  collection. An ObjectId is modelled by its string form, a Date by its millisecond
  count, a JavaScript Number by a real (only comparisons are made on them). Whatever
  comes from outside the handler is an argument: the current time, the id the driver
  gives a new document, the answer of a payment provider, the socket server.

  A record holds the paths of its schema that the handlers below read or write.
  Saving a document runs the schema's validators first; a document that fails them is
  not written and \<open>save\<close> throws. Stored documents are those that passed validation
  when they were written. Failures of the database itself are not modelled, and
  requests are handled one after the other.
\<close>

type_synonym oid = string
type_synonym date = nat

datatype error = ValidationError string

text \<open>\<open>req.user\<close>: the authenticated caller.\<close>

record caller =
  user_id :: oid
  user_isAdmin :: bool
  user_name :: string

text \<open>
  The JSON envelope \<open>{success, message, errors, data}\<close> with its HTTP status; \<open>payload\<close>
  is the document (or documents) the reply carries, if any.
\<close>

datatype 'a reply =
  Reply (http_status: nat) (success: bool) (message: "string option")
    (errors: "string list") (payload: "'a option")

definition findById :: "('d \<Rightarrow> oid) \<Rightarrow> oid \<Rightarrow> 'd list \<Rightarrow> 'd option" where
  "findById ident i docs = find (\<lambda>d. ident d = i) docs"

text \<open>Writing back a document that was read from the collection.\<close>

definition replace_doc :: "('d \<Rightarrow> oid) \<Rightarrow> 'd \<Rightarrow> 'd list \<Rightarrow> 'd list" where
  "replace_doc ident d docs = map (\<lambda>x. if ident x = ident d then d else x) docs"

text \<open>
  JavaScript \<open>String.prototype.trim\<close> and \<open>toUpperCase\<close> on ASCII text: the ASCII white
  space is stripped and the letters a to z are raised; characters beyond ASCII are left
  as they are.
\<close>

definition is_space :: "char \<Rightarrow> bool" where
  "is_space c = (c \<in> set [CHR '' '', CHR 0x09, CHR 0x0A, CHR 0x0B, CHR 0x0C, CHR 0x0D])"

definition trim :: "string \<Rightarrow> string" where
  "trim s = rev (dropWhile is_space (rev (dropWhile is_space s)))"

fun upper_char :: "char \<Rightarrow> char" where
  "upper_char (Char b0 b1 b2 b3 b4 b5 b6 b7) =
     (let n = (of_char (Char b0 b1 b2 b3 b4 b5 b6 b7) :: nat)
      in if 97 \<le> n \<and> n \<le> 122 then Char b0 b1 b2 b3 b4 False b6 b7
         else Char b0 b1 b2 b3 b4 b5 b6 b7)"

definition toUpperCase :: "string \<Rightarrow> string" where
  "toUpperCase s = map upper_char s"

text \<open>Truthiness of an optional Number: \<open>undefined\<close> and \<open>0\<close> are falsy.\<close>

fun truthy_num :: "real option \<Rightarrow> bool" where
  "truthy_num None = False"
| "truthy_num (Some x) = (x \<noteq> 0)"

text \<open>\<open>maxlength\<close> on an optional String path.\<close>

fun maxlength :: "nat \<Rightarrow> string option \<Rightarrow> bool" where
  "maxlength n None = True"
| "maxlength n (Some s) = (length s \<le> n)"

text \<open>
  express-validator: a validator chain contributes its message when the (sanitised)
  value fails; an \<open>optional()\<close> chain is skipped when the field is absent.
\<close>

definition check :: "bool \<Rightarrow> string \<Rightarrow> string list" where
  "check ok msg = (if ok then [] else [msg])"

fun optional :: "('a \<Rightarrow> bool) \<Rightarrow> 'a option \<Rightarrow> string \<Rightarrow> string list" where
  "optional ok None msg = []"
| "optional ok (Some x) msg = check (ok x) msg"

definition isLength :: "nat \<Rightarrow> nat \<Rightarrow> string \<Rightarrow> bool" where
  "isLength lo hi s = (lo \<le> length s \<and> length s \<le> hi)"

text \<open>
  The socket server \<open>req.app.get('socketio')\<close>: the sessions connected at the moment,
  each in the room it joined, or nothing when no socket server is attached to the app
  (then \<open>io.to\<close> throws a TypeError). An emission names its target, the event and the
  document it is about; \<open>deliver\<close> gives the sessions that receive it.
\<close>

record session =
  session_user :: oid
  session_room :: string

type_synonym relay = "session list"

datatype target = Room string | Everyone

record emission =
  emit_target :: target
  emit_event :: string
  emit_subject :: oid

fun deliver :: "relay \<Rightarrow> emission \<Rightarrow> session list" where
  "deliver io e =
     (case emit_target e of
        Everyone \<Rightarrow> io
      | Room r \<Rightarrow> filter (\<lambda>s. session_room s = r) io)"

section \<open>Vehicle model\<close>

record maintenance =
  serviceType :: "string option"
  cost :: real
  mileageAtService :: "real option"
  serviceDate :: "date option"

record vehicle =
  vehicle_id :: oid
  owner :: oid
  vehicle_make :: string
  vehicle_model :: string
  year :: int
  licensePlate :: string
  color :: "string option"
  mileage :: real
  maintenanceHistory :: "maintenance list"
  isActive :: bool

text \<open>
  The validators of \<open>vehicleSchema\<close> on the paths above. \<open>maxYear\<close> is
  \<open>new Date().getFullYear() + 1\<close> as evaluated when the schema was built.
\<close>

definition validate_maintenance :: "maintenance \<Rightarrow> bool" where
  "validate_maintenance m =
     ((case serviceType m of None \<Rightarrow> False | Some s \<Rightarrow> s \<noteq> []) \<and> serviceDate m \<noteq> None)"

definition validate_vehicle :: "int \<Rightarrow> vehicle \<Rightarrow> bool" where
  "validate_vehicle maxYear v =
     (vehicle_make v \<noteq> [] \<and> vehicle_model v \<noteq> [] \<and> 1900 \<le> year v \<and> year v \<le> maxYear \<and>
      licensePlate v \<noteq> [] \<and> 0 \<le> mileage v \<and>
      list_all validate_maintenance (maintenanceHistory v))"

definition save_vehicle :: "int \<Rightarrow> vehicle \<Rightarrow> vehicle list \<Rightarrow> error + vehicle list" where
  "save_vehicle maxYear v vs =
     (if validate_vehicle maxYear v then Inr (replace_doc vehicle_id v vs)
      else Inl (ValidationError ''Vehicle validation failed''))"

text \<open>
  \<open>vehicleSchema.methods.addMaintenanceRecord\<close>: the record is pushed with its service
  date defaulted to now, the mileage is raised if the record's is larger, and the
  document is saved. The result is the document as the method leaves it, and the
  outcome of the save.
\<close>

definition addMaintenanceRecord ::
  "int \<Rightarrow> date \<Rightarrow> maintenance \<Rightarrow> vehicle \<Rightarrow> vehicle list \<Rightarrow> vehicle \<times> (error + vehicle list)"
where
  "addMaintenanceRecord maxYear now record this vs =
     (let pushed = this\<lparr>maintenanceHistory := maintenanceHistory this @
            [record\<lparr>serviceDate :=
               (case serviceDate record of Some d \<Rightarrow> Some d | None \<Rightarrow> Some now)\<rparr>]\<rparr>;
          this' =
            (case mileageAtService record of
               None \<Rightarrow> pushed
             | Some m \<Rightarrow>
                 if truthy_num (Some m) \<and> m > mileage pushed then pushed\<lparr>mileage := m\<rparr>
                 else pushed)
      in (this', save_vehicle maxYear this' vs))"

text \<open>\<open>vehicleSchema.methods.updateMileage\<close>.\<close>

definition updateMileage ::
  "int \<Rightarrow> real \<Rightarrow> vehicle \<Rightarrow> vehicle list \<Rightarrow> vehicle \<times> (error + vehicle list)"
where
  "updateMileage maxYear newMileage this vs =
     (if newMileage > mileage this
      then (let this' = this\<lparr>mileage := newMileage\<rparr> in (this', save_vehicle maxYear this' vs))
      else (this, Inr vs))"

section \<open>Vehicle routes\<close>

text \<open>
  The body of \<open>PUT /vehicles/:id\<close>: the keys the handler copies onto the document.
  \<open>Object.keys(req.body)\<close> is copied without a list of allowed keys, so \<open>owner\<close> and
  \<open>isActive\<close> are among them.
\<close>

record vehicle_update =
  u_make :: "string option"
  u_model :: "string option"
  u_year :: "int option"
  u_licensePlate :: "string option"
  u_color :: "string option"
  u_mileage :: "int option"
  u_owner :: "oid option"
  u_isActive :: "bool option"

definition sanitize_vehicle_update :: "vehicle_update \<Rightarrow> vehicle_update" where
  "sanitize_vehicle_update b =
     b\<lparr>u_make := map_option trim (u_make b), u_model := map_option trim (u_model b),
       u_licensePlate := map_option trim (u_licensePlate b),
       u_color := map_option trim (u_color b)\<rparr>"

definition validate_vehicle_update :: "int \<Rightarrow> vehicle_update \<Rightarrow> string list" where
  "validate_vehicle_update maxYear b =
     optional (isLength 2 50) (u_make b) ''Invalid value'' @
     optional (isLength 2 50) (u_model b) ''Invalid value'' @
     optional (\<lambda>y. 1900 \<le> y \<and> y \<le> maxYear) (u_year b) ''Invalid value'' @
     optional (isLength 2 20) (u_licensePlate b) ''Invalid value'' @
     optional (isLength 0 30) (u_color b) ''Invalid value'' @
     optional (\<lambda>m. 0 \<le> m) (u_mileage b) ''Invalid value''"

fun assign :: "'a option \<Rightarrow> 'a \<Rightarrow> 'a" where
  "assign None old = old"
| "assign (Some x) old = x"

definition apply_vehicle_update :: "vehicle_update \<Rightarrow> vehicle \<Rightarrow> vehicle" where
  "apply_vehicle_update b v =
     v\<lparr>vehicle_make := assign (u_make b) (vehicle_make v),
       vehicle_model := assign (u_model b) (vehicle_model v),
       year := assign (u_year b) (year v),
       licensePlate := assign (map_option toUpperCase (u_licensePlate b)) (licensePlate v),
       color := (case u_color b of None \<Rightarrow> color v | Some c \<Rightarrow> Some c),
       mileage := assign (map_option of_int (u_mileage b)) (mileage v),
       owner := assign (u_owner b) (owner v),
       isActive := assign (u_isActive b) (isActive v)\<rparr>"

text \<open>
  \<open>GET /vehicles/:id\<close>. The owner is populated from the users collection (\<open>users\<close>: the
  ids it holds); a reference to no user populates to null, and the ownership test of a
  non-admin caller then throws.
\<close>

definition get_vehicle :: "oid list \<Rightarrow> caller \<Rightarrow> oid \<Rightarrow> vehicle list \<Rightarrow> vehicle reply" where
  "get_vehicle users u vehicleId vs =
     (case findById vehicle_id vehicleId vs of
        None \<Rightarrow> Reply 404 False (Some ''Vehicle not found'') [] None
      | Some v \<Rightarrow>
          if \<not> isActive v then Reply 404 False (Some ''Vehicle not found'') [] None
          else if \<not> user_isAdmin u \<and> owner v \<notin> set users
            then Reply 500 False (Some ''Server error'') [] None
          else if \<not> user_isAdmin u \<and> owner v \<noteq> user_id u
            then Reply 403 False (Some ''Not authorized to view this vehicle'') [] None
          else Reply 200 True None [] (Some v))"

text \<open>\<open>PUT /vehicles/:id\<close>.\<close>

definition update_vehicle ::
  "int \<Rightarrow> caller \<Rightarrow> oid \<Rightarrow> vehicle_update \<Rightarrow> vehicle list \<Rightarrow> vehicle reply \<times> vehicle list"
where
  "update_vehicle maxYear u vehicleId body vs =
     (let b = sanitize_vehicle_update body; errs = validate_vehicle_update maxYear b in
      if errs \<noteq> [] then (Reply 400 False None errs None, vs)
      else
        case findById vehicle_id vehicleId vs of
          None \<Rightarrow> (Reply 404 False (Some ''Vehicle not found'') [] None, vs)
        | Some v \<Rightarrow>
            if \<not> isActive v then (Reply 404 False (Some ''Vehicle not found'') [] None, vs)
            else if \<not> user_isAdmin u \<and> owner v \<noteq> user_id u
              then (Reply 403 False (Some ''Not authorized to update this vehicle'') [] None, vs)
            else
              (let v' = apply_vehicle_update b v in
               case save_vehicle maxYear v' vs of
                 Inl e \<Rightarrow> (Reply 500 False (Some ''Server error'') [] None, vs)
               | Inr vs' \<Rightarrow>
                   (Reply 200 True (Some ''Vehicle updated successfully'') [] (Some v'), vs')))"

text \<open>\<open>DELETE /vehicles/:id\<close>: a soft delete.\<close>

definition delete_vehicle ::
  "int \<Rightarrow> caller \<Rightarrow> oid \<Rightarrow> vehicle list \<Rightarrow> vehicle reply \<times> vehicle list"
where
  "delete_vehicle maxYear u vehicleId vs =
     (case findById vehicle_id vehicleId vs of
        None \<Rightarrow> (Reply 404 False (Some ''Vehicle not found'') [] None, vs)
      | Some v \<Rightarrow>
          if \<not> user_isAdmin u \<and> owner v \<noteq> user_id u
            then (Reply 403 False (Some ''Not authorized to delete this vehicle'') [] None, vs)
          else
            (case save_vehicle maxYear (v\<lparr>isActive := False\<rparr>) vs of
               Inl e \<Rightarrow> (Reply 500 False (Some ''Server error'') [] None, vs)
             | Inr vs' \<Rightarrow> (Reply 200 True (Some ''Vehicle deleted successfully'') [] None, vs')))"

section \<open>Service model and routes\<close>

record service_note =
  note_text :: string
  createdBy :: oid
  note_createdAt :: date

record service =
  service_id :: oid
  user :: oid
  vehicle_ref :: oid
  status :: string
  completedAt :: "date option"
  service_notes :: "service_note list"

definition service_statuses :: "string list" where
  "service_statuses = [''pending'', ''approved'', ''in_progress'', ''completed'', ''cancelled'']"

text \<open>
  The validators of \<open>serviceSchema\<close> on the paths the status route writes; the other
  required paths of a stored service were validated when it was created and are not
  written here.
\<close>

definition validate_service :: "service \<Rightarrow> bool" where
  "validate_service s =
     (status s \<in> set service_statuses \<and> list_all (\<lambda>n. note_text n \<noteq> []) (service_notes s))"

definition save_service :: "service \<Rightarrow> service list \<Rightarrow> error + service list" where
  "save_service s ss =
     (if validate_service s then Inr (replace_doc service_id s ss)
      else Inl (ValidationError ''Service validation failed''))"

text \<open>\<open>serviceSchema.methods.addNote\<close>: pushes the note and saves.\<close>

definition addNote ::
  "date \<Rightarrow> string \<Rightarrow> oid \<Rightarrow> service \<Rightarrow> service list \<Rightarrow> service \<times> (error + service list)"
where
  "addNote now txt userId this ss =
     (let this' = this\<lparr>service_notes := service_notes this @
            [\<lparr>note_text = txt, createdBy = userId, note_createdAt = now\<rparr>]\<rparr>
      in (this', save_service this' ss))"

text \<open>\<open>GET /services/:id\<close>, the user populated as the vehicle's owner is above.\<close>

definition get_service :: "oid list \<Rightarrow> caller \<Rightarrow> oid \<Rightarrow> service list \<Rightarrow> service reply" where
  "get_service users u serviceId ss =
     (case findById service_id serviceId ss of
        None \<Rightarrow> Reply 404 False (Some ''Service not found'') [] None
      | Some s \<Rightarrow>
          if \<not> user_isAdmin u \<and> user s \<notin> set users
            then Reply 500 False (Some ''Server error'') [] None
          else if \<not> user_isAdmin u \<and> user s \<noteq> user_id u
            then Reply 403 False (Some ''Not authorized to view this service'') [] None
          else Reply 200 True None [] (Some s))"

text \<open>
  \<open>PUT /services/:id/status\<close>. Notes that are absent or empty are falsy. When notes
  are given the handler calls \<open>addNote\<close>,
  which saves the document, and does not await it before it saves the document
  itself. Both saves write the same document. Mongoose refuses a \<open>save\<close> on a document
  whose earlier \<open>save\<close> has not finished (a ParallelSaveError, which the handler answers
  with 500); \<open>in_flight\<close> says whether the save of \<open>addNote\<close> is still running when
  the handler saves.
\<close>

record status_update =
  new_status :: string
  new_notes :: "string option"

definition status_update_errors :: "status_update \<Rightarrow> string list" where
  "status_update_errors body =
     check (new_status body \<in> set service_statuses) ''Invalid status'' @
     optional (isLength 0 500) (map_option trim (new_notes body))
       ''Notes must be less than 500 characters''"

definition update_service_status ::
  "bool \<Rightarrow> date \<Rightarrow> caller \<Rightarrow> oid \<Rightarrow> status_update \<Rightarrow> service list \<Rightarrow>
   service reply \<times> service list"
where
  "update_service_status in_flight now u serviceId body ss =
     (if \<not> user_isAdmin u then (Reply 403 False (Some ''Admin access required'') [] None, ss)
      else
        (let notes' = map_option trim (new_notes body);
             errs = status_update_errors body
         in
         if errs \<noteq> [] then (Reply 400 False None errs None, ss)
         else
           case findById service_id serviceId ss of
             None \<Rightarrow> (Reply 404 False (Some ''Service not found'') [] None, ss)
           | Some s \<Rightarrow>
               (let s1 = s\<lparr>status := new_status body\<rparr>;
                    s2 = (if new_status body = ''completed'' then s1\<lparr>completedAt := Some now\<rparr>
                          else s1);
                    notes = (case notes' of None \<Rightarrow> [] | Some n \<Rightarrow> n);
                    (s3, ss1) =
                      (if notes \<noteq> []
                       then (case addNote now notes (user_id u) s2 ss of
                               (s', Inl e) \<Rightarrow> (s', ss)
                             | (s', Inr ss') \<Rightarrow> (s', ss'))
                       else (s2, ss))
                in
                if notes \<noteq> [] \<and> in_flight
                then (Reply 500 False (Some ''Server error'') [] None, ss1)
                else
                  case save_service s3 ss1 of
                    Inl e \<Rightarrow> (Reply 500 False (Some ''Server error'') [] None, ss1)
                  | Inr ss' \<Rightarrow>
                      (Reply 200 True (Some ''Service status updated successfully'') []
                         (Some s3), ss'))))"

section \<open>Location model and routes\<close>

record location =
  location_id :: oid
  user :: oid
  name :: "string option"
  description :: "string option"
  latitude :: real
  longitude :: real
  location_type :: string
  isActive :: bool
  isPrimary :: bool
  isVisibleToAdmins :: bool

definition location_types :: "string list" where
  "location_types =
     [''home'', ''work'', ''service_location'', ''pickup'', ''delivery'', ''emergency'', ''other'']"

definition validate_location :: "location \<Rightarrow> bool" where
  "validate_location l =
     (- 90 \<le> latitude l \<and> latitude l \<le> 90 \<and> - 180 \<le> longitude l \<and> longitude l \<le> 180 \<and>
      location_type l \<in> set location_types \<and>
      maxlength 100 (name l) \<and> maxlength 500 (description l))"

text \<open>
  \<open>locationSchema.pre('save')\<close>: when the document being saved is primary and its
  \<open>isPrimary\<close> path is modified, \<open>updateMany\<close> clears the flag on the other primary
  locations of the same user and type. \<open>modified\<close> is \<open>this.isModified('isPrimary')\<close>.
\<close>

definition pre_save_location :: "bool \<Rightarrow> location \<Rightarrow> location list \<Rightarrow> location list" where
  "pre_save_location modified this ls =
     (if isPrimary this \<and> modified
      then map (\<lambda>l. if location.user l = location.user this \<and>
                        location_type l = location_type this \<and>
                        location_id l \<noteq> location_id this \<and> isPrimary l
                     then l\<lparr>isPrimary := False\<rparr> else l) ls
      else ls)"

text \<open>
  Saving a new document: validation, the hook, the insert. The constructor was given
  \<open>isPrimary\<close>, so a primary new document has the path modified.
\<close>

definition save_new_location :: "location \<Rightarrow> location list \<Rightarrow> error + location list" where
  "save_new_location this ls =
     (if validate_location this then Inr (pre_save_location True this ls @ [this])
      else Inl (ValidationError ''Location validation failed''))"

text \<open>
  Saving a document read from the collection as \<open>orig\<close>: \<open>isPrimary\<close> is modified when
  its value differs from the one that was read.
\<close>

definition save_location :: "location \<Rightarrow> location \<Rightarrow> location list \<Rightarrow> error + location list" where
  "save_location orig this ls =
     (if validate_location this
      then Inr (replace_doc location_id this
                  (pre_save_location (isPrimary this \<noteq> isPrimary orig) this ls))
      else Inl (ValidationError ''Location validation failed''))"

text \<open>\<open>POST /locations\<close>.\<close>

record location_create =
  c_latitude :: real
  c_longitude :: real
  c_name :: "string option"
  c_description :: "string option"
  c_type :: "string option"
  c_isPrimary :: "bool option"

definition create_location_errors :: "location_create \<Rightarrow> string list" where
  "create_location_errors body =
     check (- 90 \<le> c_latitude body \<and> c_latitude body \<le> 90) ''Invalid latitude'' @
     check (- 180 \<le> c_longitude body \<and> c_longitude body \<le> 180) ''Invalid longitude'' @
     optional (isLength 0 100) (map_option trim (c_name body)) ''Name too long'' @
     optional (isLength 0 500) (map_option trim (c_description body)) ''Description too long'' @
     optional (\<lambda>t. t \<in> set location_types) (c_type body) ''Invalid location type''"

definition create_location ::
  "relay option \<Rightarrow> oid \<Rightarrow> caller \<Rightarrow> location_create \<Rightarrow> location list \<Rightarrow>
   location reply \<times> location list \<times> emission list"
where
  "create_location io fresh u body ls =
     (let name' = map_option trim (c_name body);
          description' = map_option trim (c_description body);
          errs = create_location_errors body
      in
      if errs \<noteq> [] then (Reply 400 False None errs None, ls, [])
      else
        (let this =
               \<lparr>location_id = fresh, user = user_id u, name = name',
                description = description',
                latitude = c_latitude body, longitude = c_longitude body,
                location_type = assign (c_type body) ''other'',
                isActive = True, isPrimary = assign (c_isPrimary body) False,
                isVisibleToAdmins = True\<rparr>
         in
         case save_new_location this ls of
           Inl e \<Rightarrow> (Reply 500 False (Some ''Error sharing location'') [] None, ls, [])
         | Inr ls' \<Rightarrow>
             (case io of
                None \<Rightarrow> (Reply 500 False (Some ''Error sharing location'') [] None, ls', [])
              | Some sessions \<Rightarrow>
                  (Reply 201 True (Some ''Location shared successfully'') []
                     (findById location_id fresh ls'),
                   ls',
                   [\<lparr>emit_target = Room ''admin-room'', emit_event = ''location-update'',
                      emit_subject = fresh\<rparr>,
                    \<lparr>emit_target = Everyone, emit_event = ''admin-submission-received'',
                      emit_subject = fresh\<rparr>]))))"

text \<open>
  \<open>PUT /locations/:id\<close>. The coordinates are replaced when both are given and truthy;
  every other key of the body is copied onto the document.
\<close>

record location_update =
  l_latitude :: "real option"
  l_longitude :: "real option"
  l_name :: "string option"
  l_description :: "string option"
  l_type :: "string option"
  l_isPrimary :: "bool option"
  l_isActive :: "bool option"
  l_user :: "oid option"

definition apply_location_update :: "location_update \<Rightarrow> location \<Rightarrow> location" where
  "apply_location_update b l =
     (let l1 =
            (case (l_latitude b, l_longitude b) of
               (Some la, Some lo) \<Rightarrow>
                 if truthy_num (Some la) \<and> truthy_num (Some lo)
                 then l\<lparr>latitude := la, longitude := lo\<rparr> else l
             | _ \<Rightarrow> l)
      in l1\<lparr>name := (case l_name b of None \<Rightarrow> name l1 | Some n \<Rightarrow> Some n),
            description := (case l_description b of None \<Rightarrow> description l1 | Some d \<Rightarrow> Some d),
            location_type := assign (l_type b) (location_type l1),
            isPrimary := assign (l_isPrimary b) (isPrimary l1),
            isActive := assign (l_isActive b) (isActive l1),
            user := assign (l_user b) (location.user l1)\<rparr>)"

definition update_location_errors :: "location_update \<Rightarrow> string list" where
  "update_location_errors body =
     optional (\<lambda>x. - 90 \<le> x \<and> x \<le> 90) (l_latitude body) ''Invalid latitude'' @
     optional (\<lambda>x. - 180 \<le> x \<and> x \<le> 180) (l_longitude body) ''Invalid longitude'' @
     optional (isLength 0 100) (map_option trim (l_name body)) ''Name too long'' @
     optional (isLength 0 500) (map_option trim (l_description body)) ''Description too long'' @
     optional (\<lambda>t. t \<in> set location_types) (l_type body) ''Invalid location type''"

definition update_location ::
  "caller \<Rightarrow> oid \<Rightarrow> location_update \<Rightarrow> location list \<Rightarrow> location reply \<times> location list"
where
  "update_location u ident body ls =
     (let b = body\<lparr>l_name := map_option trim (l_name body),
                   l_description := map_option trim (l_description body)\<rparr>;
          errs = update_location_errors body
      in
      if errs \<noteq> [] then (Reply 400 False None errs None, ls)
      else
        case findById location_id ident ls of
          None \<Rightarrow> (Reply 404 False (Some ''Location not found'') [] None, ls)
        | Some l \<Rightarrow>
            if \<not> user_isAdmin u \<and> location.user l \<noteq> user_id u
              then (Reply 403 False (Some ''Not authorized to update this location'') [] None, ls)
            else
              (case save_location l (apply_location_update b l) ls of
                 Inl e \<Rightarrow> (Reply 500 False (Some ''Error updating location'') [] None, ls)
               | Inr ls' \<Rightarrow>
                   (Reply 200 True (Some ''Location updated successfully'') []
                      (findById location_id ident ls'), ls')))"

text \<open>\<open>DELETE /locations/:id\<close>: a soft delete.\<close>

definition delete_location ::
  "caller \<Rightarrow> oid \<Rightarrow> location list \<Rightarrow> location reply \<times> location list"
where
  "delete_location u ident ls =
     (case findById location_id ident ls of
        None \<Rightarrow> (Reply 404 False (Some ''Location not found'') [] None, ls)
      | Some l \<Rightarrow>
          if \<not> user_isAdmin u \<and> location.user l \<noteq> user_id u
            then (Reply 403 False (Some ''Not authorized to delete this location'') [] None, ls)
          else
            (case save_location l (l\<lparr>isActive := False\<rparr>) ls of
               Inl e \<Rightarrow> (Reply 500 False (Some ''Error deleting location'') [] None, ls)
             | Inr ls' \<Rightarrow> (Reply 200 True (Some ''Location deleted successfully'') [] None, ls')))"

text \<open>At most one primary location for each user and type.\<close>

definition primaries :: "oid \<Rightarrow> string \<Rightarrow> location list \<Rightarrow> location list" where
  "primaries uid t ls =
     filter (\<lambda>l. location.user l = uid \<and> location_type l = t \<and> isPrimary l) ls"

definition one_primary :: "location list \<Rightarrow> bool" where
  "one_primary ls =
     list_all (\<lambda>l. length (primaries (location.user l) (location_type l) ls) \<le> 1) ls"

section \<open>Message model and routes\<close>

record message =
  message_id :: oid
  sender :: "oid option"
  recipient :: "oid option"
  conversation :: string
  message_text :: string
  senderType :: string
  recipientType :: string
  isRead :: "(oid \<times> date) list"
  isAutoReply :: bool
  isVisibleToAllAdmins :: bool
  createdAt :: date

text \<open>The validators of \<open>messageSchema\<close>: \<open>sender\<close>, \<open>conversation\<close>, \<open>text\<close> and
  \<open>senderType\<close> are required.\<close>

definition validate_message :: "message \<Rightarrow> bool" where
  "validate_message m =
     (sender m \<noteq> None \<and> conversation m \<noteq> [] \<and> message_text m \<noteq> [] \<and> length (message_text m) \<le> 1000 \<and>
      senderType m \<in> set [''user'', ''admin''] \<and>
      recipientType m \<in> set [''user'', ''admin'', ''all_admins''])"

definition save_new_message :: "message \<Rightarrow> message list \<Rightarrow> error + message list" where
  "save_new_message m ms =
     (if validate_message m then Inr (ms @ [m])
      else Inl (ValidationError ''Message validation failed''))"

text \<open>\<open>.sort({ createdAt: -1 })\<close>.\<close>

definition newest_first :: "message list \<Rightarrow> message list" where
  "newest_first ms = rev (sort_key createdAt ms)"

text \<open>
  \<open>messageSchema.statics.sendAutoReply\<close>: nothing is sent when the conversation already
  holds an auto-reply; otherwise one is built and saved, and a failing save is caught
  and answered with null.
\<close>

definition sendAutoReply ::
  "date \<Rightarrow> oid \<Rightarrow> oid \<Rightarrow> message list \<Rightarrow> message option \<times> message list"
where
  "sendAutoReply now fresh userId ms =
     (case find (\<lambda>m. conversation m = userId \<and> isAutoReply m) ms of
        Some existingAutoReply \<Rightarrow> (None, ms)
      | None \<Rightarrow>
          (let autoReply =
                 \<lparr>message_id = fresh, sender = None, recipient = Some userId,
                  conversation = userId,
                  message_text = ''Thanks for your message! An admin will review it shortly and get back to you.'',
                  senderType = ''admin'', recipientType = ''user'', isRead = [],
                  isAutoReply = True, isVisibleToAllAdmins = False, createdAt = now\<rparr>
           in case save_new_message autoReply ms of
                Inl e \<Rightarrow> (None, ms)
              | Inr ms' \<Rightarrow> (Some autoReply, ms')))"

text \<open>\<open>messageSchema.statics.getConversation\<close> (with its default limit) and
  \<open>getAllAdminSubmissions\<close>.\<close>

definition getConversation :: "string \<Rightarrow> message list \<Rightarrow> message list" where
  "getConversation userId ms =
     take 50 (newest_first
       (filter (\<lambda>m. conversation m = userId \<or> isVisibleToAllAdmins m) ms))"

definition getAllAdminSubmissions :: "message list \<Rightarrow> message list" where
  "getAllAdminSubmissions ms =
     newest_first
       (filter (\<lambda>m. recipientType m = ''all_admins'' \<or> isVisibleToAllAdmins m \<or>
                     senderType m = ''user'') ms)"

text \<open>\<open>messageSchema.statics.markAsReadByAdmin\<close>.\<close>

definition markAsReadByAdmin :: "date \<Rightarrow> string \<Rightarrow> oid \<Rightarrow> message list \<Rightarrow> message list" where
  "markAsReadByAdmin now conversationId adminId ms =
     map (\<lambda>m. if conversation m = conversationId \<and> adminId \<notin> set (map fst (isRead m))
               then m\<lparr>isRead := isRead m @ [(adminId, now)]\<rparr> else m) ms"

text \<open>\<open>GET /messages\<close>; \<open>userId\<close> is \<open>req.query.userId\<close>.\<close>

definition get_messages :: "caller \<Rightarrow> string option \<Rightarrow> message list \<Rightarrow> message list reply" where
  "get_messages u userId ms =
     Reply 200 True None []
       (Some (if user_isAdmin u
              then (case userId of
                      None \<Rightarrow> getAllAdminSubmissions ms
                    | Some i \<Rightarrow> if i = [] then getAllAdminSubmissions ms else getConversation i ms)
              else getConversation (user_id u) ms))"

text \<open>
  \<open>POST /messages\<close>. \<open>fresh\<close> is the id of the new message, \<open>fresh2\<close> the one an
  auto-reply would get. A recipient id that is absent or empty is falsy. The reply
  carries the message and the auto-reply.
\<close>

record message_body =
  body_text :: string
  recipientId :: "oid option"

definition message_errors :: "string \<Rightarrow> string list" where
  "message_errors txt =
     check (isLength 1 1000 (trim txt)) ''Message must be between 1 and 1000 characters''"

definition post_message ::
  "relay option \<Rightarrow> date \<Rightarrow> oid \<Rightarrow> oid \<Rightarrow> caller \<Rightarrow> message_body \<Rightarrow> message list \<Rightarrow>
   (message \<times> message option) reply \<times> message list \<times> emission list"
where
  "post_message io now fresh fresh2 u body ms =
     (let txt = trim (body_text body);
          errs = message_errors (body_text body);
          isAdmin = user_isAdmin u;
          recipientId = (case recipientId body of None \<Rightarrow> [] | Some r \<Rightarrow> r)
      in
      if errs \<noteq> [] then (Reply 400 False None errs None, ms, [])
      else
        case
          (if isAdmin \<and> recipientId \<noteq> []
           then Some \<lparr>message_id = fresh, sender = Some (user_id u),
                      recipient = Some recipientId,
                      conversation = recipientId, message_text = txt,
                      senderType = ''admin'', recipientType = ''user'', isRead = [],
                      isAutoReply = False, isVisibleToAllAdmins = False, createdAt = now\<rparr>
           else if \<not> isAdmin
           then Some \<lparr>message_id = fresh, sender = Some (user_id u), recipient = None,
                      conversation = user_id u, message_text = txt,
                      senderType = ''user'', recipientType = ''all_admins'', isRead = [],
                      isAutoReply = False, isVisibleToAllAdmins = True, createdAt = now\<rparr>
           else None)
        of
          None \<Rightarrow> (Reply 400 False (Some ''Invalid message configuration'') [] None, ms, [])
        | Some m \<Rightarrow>
            (case save_new_message m ms of
               Inl e \<Rightarrow> (Reply 500 False (Some ''Error sending message'') [] None, ms, [])
             | Inr ms1 \<Rightarrow>
                 (let (autoReply, ms2) =
                        (if \<not> isAdmin then sendAutoReply now fresh2 (user_id u) ms1
                         else (None, ms1))
                  in
                  case io of
                    None \<Rightarrow> (Reply 500 False (Some ''Error sending message'') [] None, ms2, [])
                  | Some sessions \<Rightarrow>
                      (Reply 201 True (Some ''Message sent successfully'') []
                         (Some (m, autoReply)),
                       ms2,
                       (if isAdmin \<and> recipientId \<noteq> []
                        then [\<lparr>emit_target = Room (''user-'' @ recipientId),
                                emit_event = ''message-received'', emit_subject = fresh\<rparr>]
                        else if \<not> isAdmin
                        then [\<lparr>emit_target = Room ''admin-room'',
                                emit_event = ''message-received'', emit_subject = fresh\<rparr>,
                              \<lparr>emit_target = Everyone,
                                emit_event = ''admin-submission-received'',
                                emit_subject = fresh\<rparr>]
                        else [])))))"

text \<open>
  \<open>POST /messages/broadcast\<close>, as it runs behind \<open>requireAdmin\<close>: the handler itself
  for a caller the middleware let through.
\<close>

record broadcast_body =
  broadcast_text :: string
  broadcast_title :: "string option"

definition broadcast_message ::
  "relay option \<Rightarrow> date \<Rightarrow> oid \<Rightarrow> caller \<Rightarrow> broadcast_body \<Rightarrow> message list \<Rightarrow>
   message reply \<times> message list \<times> emission list"
where
  "broadcast_message io now fresh u body ms =
     (let txt = trim (broadcast_text body);
          title = map_option trim (broadcast_title body);
          errs = message_errors (broadcast_text body) @
                 optional (isLength 0 100) title ''Title must be less than 100 characters''
      in
      if errs \<noteq> [] then (Reply 400 False None errs None, ms, [])
      else
        (let m = \<lparr>message_id = fresh, sender = Some (user_id u), recipient = None,
                  conversation = ''admin-broadcast'',
                  message_text = trim (case title of
                                 None \<Rightarrow> txt
                               | Some t \<Rightarrow> if t = [] then txt else t @ '': '' @ txt),
                  senderType = ''admin'', recipientType = ''all_admins'', isRead = [],
                  isAutoReply = False, isVisibleToAllAdmins = True, createdAt = now\<rparr>
         in
         case save_new_message m ms of
           Inl e \<Rightarrow> (Reply 500 False (Some ''Error sending broadcast message'') [] None, ms, [])
         | Inr ms' \<Rightarrow>
             (case io of
                None \<Rightarrow>
                  (Reply 500 False (Some ''Error sending broadcast message'') [] None, ms', [])
              | Some sessions \<Rightarrow>
                  (Reply 201 True (Some ''Broadcast sent to all admins successfully'') []
                     (Some m),
                   ms',
                   [\<lparr>emit_target = Room ''admin-room'',
                      emit_event = ''admin-broadcast-received'', emit_subject = fresh\<rparr>,
                    \<lparr>emit_target = Everyone, emit_event = ''admin-submission-received'',
                      emit_subject = fresh\<rparr>]))))"

text \<open>
  The requests that write the message collection, and a run of them from a given
  collection, one after the other.
\<close>

datatype message_request =
  PostMessage "relay option" date oid oid caller message_body
  | Broadcast "relay option" date oid caller broadcast_body
  | MarkRead date string caller

fun message_step :: "message_request \<Rightarrow> message list \<Rightarrow> message list" where
  "message_step (PostMessage io now fresh fresh2 u body) ms =
     fst (snd (post_message io now fresh fresh2 u body ms))"
| "message_step (Broadcast io now fresh u body) ms =
     fst (snd (broadcast_message io now fresh u body ms))"
| "message_step (MarkRead now conversationId u) ms =
     markAsReadByAdmin now conversationId (user_id u) ms"

fun message_run :: "message_request list \<Rightarrow> message list \<Rightarrow> message list" where
  "message_run [] ms = ms"
| "message_run (r # rs) ms = message_run rs (message_step r ms)"

definition auto_replies :: "string \<Rightarrow> message list \<Rightarrow> message list" where
  "auto_replies userId ms = filter (\<lambda>m. conversation m = userId \<and> isAutoReply m) ms"

definition single_auto_reply :: "string \<Rightarrow> message list \<Rightarrow> bool" where
  "single_auto_reply userId ms = (length (auto_replies userId ms) \<le> 1)"

section \<open>Payment model and routes\<close>

record payment =
  payment_id :: oid
  user :: oid
  amount :: real
  currency :: string
  description :: "string option"
  paymentMethod :: string
  status :: string
  paystackReference :: "string option"
  paystackTransactionId :: "string option"
  paystackStatus :: "string option"
  paypalOrderId :: "string option"
  paypalCaptureId :: "string option"
  completedAt :: "date option"

text \<open>The validators of \<open>paymentSchema\<close>: \<open>min\<close>, \<open>enum\<close> and \<open>maxlength\<close>.\<close>

definition payment_currencies :: "string list" where
  "payment_currencies = [''NGN'', ''USD'', ''GHS'', ''ZAR'', ''KES'']"

definition payment_methods :: "string list" where
  "payment_methods = [''paystack'', ''paypal'', ''manual'']"

definition payment_statuses :: "string list" where
  "payment_statuses = [''pending'', ''completed'', ''failed'', ''cancelled'', ''refunded'']"

definition paystack_statuses :: "string list" where
  "paystack_statuses =
     [''pending'', ''ongoing'', ''success'', ''failed'', ''timeout'', ''processing'',
      ''abandoned'']"

definition validate_payment :: "payment \<Rightarrow> bool" where
  "validate_payment p =
     (0 \<le> amount p \<and>
      currency p \<in> set payment_currencies \<and>
      maxlength 500 (description p) \<and>
      paymentMethod p \<in> set payment_methods \<and>
      status p \<in> set payment_statuses \<and>
      (case paystackStatus p of None \<Rightarrow> True | Some s \<Rightarrow> s \<in> set paystack_statuses))"

definition save_new_payment :: "payment \<Rightarrow> payment list \<Rightarrow> error + payment list" where
  "save_new_payment p ps =
     (if validate_payment p then Inr (ps @ [p])
      else Inl (ValidationError ''Payment validation failed''))"

definition save_payment :: "payment \<Rightarrow> payment list \<Rightarrow> error + payment list" where
  "save_payment p ps =
     (if validate_payment p then Inr (replace_doc payment_id p ps)
      else Inl (ValidationError ''Payment validation failed''))"

text \<open>
  A call to a payment provider either throws or returns the provider's answer. A
  provider whose keys are not configured is absent.
\<close>

datatype 'a outcome = Throws string | Returns 'a

fun error_message :: "error \<Rightarrow> string" where
  "error_message (ValidationError m) = m"

text \<open>\<open>error.message || fallback\<close>.\<close>

definition message_or :: "string \<Rightarrow> string \<Rightarrow> string option" where
  "message_or m fallback = Some (if m = [] then fallback else m)"

record payment_request =
  req_amount :: real
  req_currency :: string
  req_description :: "string option"

text \<open>
  \<open>isNumeric\<close> on a Number: express-validator tests the string the number turns into,
  and accepts digits with an optional sign and decimal point. A Number prints that way
  when it is 0 or its magnitude is at least one millionth and below ten to the power
  21; otherwise it prints with an exponent and is refused.
\<close>

definition isNumeric :: "real \<Rightarrow> bool" where
  "isNumeric x = (x = 0 \<or> (1 / 10 ^ 6 \<le> abs x \<and> abs x < 10 ^ 21))"

text \<open>
  The validator chains of the three routes that start a payment: the amount is
  numeric, the currency is one of the route's list, the description (trimmed) has at
  most 500 characters.
\<close>

definition payment_request_errors :: "string list \<Rightarrow> string \<Rightarrow> payment_request \<Rightarrow> string list" where
  "payment_request_errors currencies msg body =
     check (isNumeric (req_amount body)) ''Amount must be a number'' @
     check (req_currency body \<in> set currencies) msg @
     optional (isLength 0 500) (map_option trim (req_description body)) ''Description too long''"

text \<open>
  \<open>POST /payments/paystack/initialize\<close>. The handler copies \<open>response.data.reference\<close>
  onto the payment as it is, so the reference is optional in the provider's answer.
\<close>

record init_data =
  reference :: "string option"
  authorization_url :: string
  access_code :: string

record init_response =
  init_status :: bool
  init_message :: "string option"
  init_response_data :: "init_data option"

definition paystack_initialize ::
  "init_response outcome option \<Rightarrow> oid \<Rightarrow> caller \<Rightarrow> payment_request \<Rightarrow> payment list \<Rightarrow>
   (init_data \<times> oid) reply \<times> payment list"
where
  "paystack_initialize paystack fresh u body ps =
     (let description' = map_option trim (req_description body);
          errs = payment_request_errors [''NGN'', ''USD'', ''GHS'', ''ZAR'', ''KES'']
                   ''Invalid currency'' body
      in
      if errs \<noteq> [] then (Reply 400 False None errs None, ps)
      else
        case paystack of
          None \<Rightarrow>
            (Reply 503 False
               (Some ''Paystack payment processing is not configured. Please contact administrator.'')
               [] None, ps)
        | Some call \<Rightarrow>
            (let payment =
                   \<lparr>payment_id = fresh, user = user_id u, amount = req_amount body,
                    currency = req_currency body, description = description',
                    paymentMethod = ''paystack'', status = ''pending'',
                    paystackReference = None, paystackTransactionId = None,
                    paystackStatus = None, paypalOrderId = None, paypalCaptureId = None,
                    completedAt = None\<rparr>
             in
             case save_new_payment payment ps of
               Inl e \<Rightarrow>
                 (Reply 500 False (message_or (error_message e) ''Error initializing payment'')
                    [] None, ps)
             | Inr ps1 \<Rightarrow>
                 (case call of
                    Throws m \<Rightarrow>
                      (Reply 500 False (message_or m ''Error initializing payment'') [] None, ps1)
                  | Returns response \<Rightarrow>
                      if init_status response then
                        (case init_response_data response of
                           None \<Rightarrow>
                             (Reply 500 False
                                (message_or ''Cannot read properties of undefined''
                                   ''Error initializing payment'') [] None, ps1)
                         | Some d \<Rightarrow>
                             (let payment' = payment\<lparr>paystackReference := reference d\<rparr>
                              in
                              case save_payment payment' ps1 of
                                Inl e \<Rightarrow>
                                  (Reply 500 False
                                     (message_or (error_message e) ''Error initializing payment'')
                                     [] None, ps1)
                              | Inr ps2 \<Rightarrow> (Reply 200 True None [] (Some (d, fresh)), ps2)))
                      else
                        (Reply 500 False
                           (message_or (case init_message response of None \<Rightarrow> [] | Some m \<Rightarrow> m)
                              ''Failed to initialize transaction'') [] None, ps1))))"

text \<open>
  \<open>POST /payments/paystack/verify\<close>. The transaction's metadata may be missing, and
  may lack the payment id.
\<close>

record transaction =
  t_id :: string
  t_status :: string
  t_amount :: real
  t_currency :: string
  t_metadata :: "oid option option"

record verify_response =
  verify_status :: bool
  verify_message :: "string option"
  verify_response_data :: "transaction option"

record verify_result =
  payment_status :: string
  verified_payment_id :: oid
  verified_amount :: real
  verified_currency :: string

definition payment_emissions :: "oid \<Rightarrow> emission list" where
  "payment_emissions i =
     [\<lparr>emit_target = Room ''admin-room'', emit_event = ''payment-notification'',
        emit_subject = i\<rparr>,
      \<lparr>emit_target = Everyone, emit_event = ''admin-submission-received'',
        emit_subject = i\<rparr>]"

definition paystack_verify ::
  "verify_response outcome option \<Rightarrow> relay option \<Rightarrow> date \<Rightarrow> caller \<Rightarrow> string \<Rightarrow>
   payment list \<Rightarrow> verify_result reply \<times> payment list \<times> emission list"
where
  "paystack_verify paystack io now u ref ps =
     (let errs = check (ref \<noteq> []) ''Payment reference is required'' in
      if errs \<noteq> [] then (Reply 400 False None errs None, ps, [])
      else
        case paystack of
          None \<Rightarrow>
            (Reply 503 False
               (Some ''Paystack payment processing is not configured. Please contact administrator.'')
               [] None, ps, [])
        | Some (Throws m) \<Rightarrow>
            (Reply 500 False (message_or m ''Error verifying payment'') [] None, ps, [])
        | Some (Returns response) \<Rightarrow>
            if \<not> verify_status response then
              (Reply 500 False
                 (message_or (case verify_message response of None \<Rightarrow> [] | Some m \<Rightarrow> m)
                    ''Transaction verification failed'') [] None, ps, [])
            else
              case (case verify_response_data response of None \<Rightarrow> None | Some t \<Rightarrow>
                      map_option (Pair t) (t_metadata t)) of
                None \<Rightarrow>
                  (Reply 500 False
                     (message_or ''Cannot read properties of undefined''
                        ''Error verifying payment'') [] None, ps, [])
              | Some (transaction, payment_ref) \<Rightarrow>
                  (case (case payment_ref of None \<Rightarrow> None
                         | Some i \<Rightarrow> findById payment_id i ps) of
                     None \<Rightarrow> (Reply 404 False (Some ''Payment record not found'') [] None, ps, [])
                   | Some payment \<Rightarrow>
                       (let paid = (t_status transaction = ''success'');
                            p1 = payment\<lparr>status := (if paid then ''completed'' else ''failed''),
                                   paystackTransactionId := Some (t_id transaction),
                                   paystackStatus := Some (t_status transaction)\<rparr>;
                            p2 = (if paid then p1\<lparr>completedAt := Some now\<rparr> else p1)
                        in
                        case save_payment p2 ps of
                          Inl e \<Rightarrow>
                            (Reply 500 False
                               (message_or (error_message e) ''Error verifying payment'')
                               [] None, ps, [])
                        | Inr ps' \<Rightarrow>
                            if paid \<and> io = None then
                              (Reply 500 False
                                 (message_or ''Cannot read properties of undefined''
                                    ''Error verifying payment'') [] None, ps', [])
                            else
                              (Reply 200 True None []
                                 (Some \<lparr>payment_status = t_status transaction,
                                         verified_payment_id = payment_id p2,
                                         verified_amount = t_amount transaction / 100,
                                         verified_currency = t_currency transaction\<rparr>),
                               ps',
                               if paid then payment_emissions (payment_id p2) else []))))"

text \<open>
  \<open>POST /payments/paypal/create-order\<close>. Of the order the provider returns, the
  handler reads the id and the link whose \<open>rel\<close> is \<open>approve\<close>.
\<close>

record paypal_order =
  order_id :: "string option"
  approve_href :: "string option"

definition paypal_create_order ::
  "paypal_order outcome option \<Rightarrow> oid \<Rightarrow> caller \<Rightarrow> payment_request \<Rightarrow> payment list \<Rightarrow>
   (string option \<times> string \<times> oid) reply \<times> payment list"
where
  "paypal_create_order paypal fresh u body ps =
     (let description' = map_option trim (req_description body);
          errs = payment_request_errors [''USD'', ''EUR'', ''GBP'']
                   ''Invalid currency for PayPal'' body
      in
      if errs \<noteq> [] then (Reply 400 False None errs None, ps)
      else
        case paypal of
          None \<Rightarrow>
            (Reply 503 False
               (Some ''PayPal payment processing is not configured. Please contact administrator.'')
               [] None, ps)
        | Some (Throws m) \<Rightarrow> (Reply 500 False (Some ''Error creating PayPal order'') [] None, ps)
        | Some (Returns order) \<Rightarrow>
            (let payment =
                   \<lparr>payment_id = fresh, user = user_id u, amount = req_amount body,
                    currency = req_currency body, description = description',
                    paymentMethod = ''paypal'', status = ''pending'',
                    paystackReference = None, paystackTransactionId = None,
                    paystackStatus = None, paypalOrderId = order_id order,
                    paypalCaptureId = None, completedAt = None\<rparr>
             in
             case save_new_payment payment ps of
               Inl e \<Rightarrow> (Reply 500 False (Some ''Error creating PayPal order'') [] None, ps)
             | Inr ps' \<Rightarrow>
                 (case approve_href order of
                    None \<Rightarrow> (Reply 500 False (Some ''Error creating PayPal order'') [] None, ps')
                  | Some href \<Rightarrow>
                      (Reply 200 True None [] (Some (order_id order, href, fresh)), ps'))))"

text \<open>
  \<open>POST /payments/paypal/capture\<close>. Each purchase unit of the capture is given by the
  id of its first capture, \<open>?.payments?.captures?.[0]?.id\<close>; the list itself is read
  without a guard.
\<close>

record paypal_capture_result =
  capture_status :: "string option"
  purchase_units :: "string option list option"

definition paypal_capture ::
  "paypal_capture_result outcome option \<Rightarrow> relay option \<Rightarrow> date \<Rightarrow> caller \<Rightarrow> string \<Rightarrow>
   payment list \<Rightarrow> (string option \<times> oid) reply \<times> payment list \<times> emission list"
where
  "paypal_capture paypal io now u ord ps =
     (let errs = check (ord \<noteq> []) ''Order ID is required'' in
      if errs \<noteq> [] then (Reply 400 False None errs None, ps, [])
      else
        case paypal of
          None \<Rightarrow>
            (Reply 503 False
               (Some ''PayPal payment processing is not configured. Please contact administrator.'')
               [] None, ps, [])
        | Some (Throws m) \<Rightarrow>
            (Reply 500 False (Some ''Error capturing PayPal payment'') [] None, ps, [])
        | Some (Returns capture) \<Rightarrow>
            (case find (\<lambda>p. paypalOrderId p = Some ord) ps of
               None \<Rightarrow> (Reply 404 False (Some ''Payment record not found'') [] None, ps, [])
             | Some payment \<Rightarrow>
                 (let paid = (capture_status capture = Some ''COMPLETED'');
                      p1 = payment\<lparr>status := (if paid then ''completed'' else ''failed'')\<rparr>
                  in
                  case purchase_units capture of
                    None \<Rightarrow>
                      (Reply 500 False (Some ''Error capturing PayPal payment'') [] None, ps, [])
                  | Some units \<Rightarrow>
                      (let p2 = p1\<lparr>paypalCaptureId :=
                                     (case units of [] \<Rightarrow> None | first # rest \<Rightarrow> first)\<rparr>;
                           p3 = (if paid then p2\<lparr>completedAt := Some now\<rparr> else p2)
                       in
                       case save_payment p3 ps of
                         Inl e \<Rightarrow>
                           (Reply 500 False (Some ''Error capturing PayPal payment'') [] None,
                            ps, [])
                       | Inr ps' \<Rightarrow>
                           if paid \<and> io = None then
                             (Reply 500 False (Some ''Error capturing PayPal payment'') [] None,
                              ps', [])
                           else
                             (Reply 200 True None []
                                (Some (capture_status capture, payment_id p3)),
                              ps',
                              if paid then payment_emissions (payment_id p3) else [])))))"

text \<open>
  \<open>POST /payments/stripe/create-payment-intent\<close> of the older payments router. The
  schema has no \<open>stripePaymentIntentId\<close> path, so the constructor drops it.
\<close>

record payment_intent =
  intent_id :: string
  client_secret :: string

definition stripe_create_payment_intent ::
  "payment_intent outcome \<Rightarrow> oid \<Rightarrow> caller \<Rightarrow> payment_request \<Rightarrow> payment list \<Rightarrow>
   (string \<times> oid) reply \<times> payment list"
where
  "stripe_create_payment_intent stripe fresh u body ps =
     (let description' = map_option trim (req_description body);
          errs = payment_request_errors [''USD'', ''EUR'', ''GBP'', ''KES'', ''NGN'', ''ZAR'']
                   ''Invalid currency'' body
      in
      if errs \<noteq> [] then (Reply 400 False None errs None, ps)
      else
        case stripe of
          Throws m \<Rightarrow> (Reply 500 False (Some ''Error creating payment intent'') [] None, ps)
        | Returns paymentIntent \<Rightarrow>
            (let payment =
                   \<lparr>payment_id = fresh, user = user_id u, amount = req_amount body,
                    currency = req_currency body, description = description',
                    paymentMethod = ''stripe'', status = ''pending'',
                    paystackReference = None, paystackTransactionId = None,
                    paystackStatus = None, paypalOrderId = None, paypalCaptureId = None,
                    completedAt = None\<rparr>
             in
             case save_new_payment payment ps of
               Inl e \<Rightarrow> (Reply 500 False (Some ''Error creating payment intent'') [] None, ps)
             | Inr ps' \<Rightarrow>
                 (Reply 200 True None [] (Some (client_secret paymentIntent, fresh)), ps')))"

text \<open>
  The correlation fields agree with the payment method: the Paystack reference is
  there exactly for a Paystack payment, the PayPal order id exactly for a PayPal one.
\<close>

definition correlation_consistent :: "payment \<Rightarrow> bool" where
  "correlation_consistent p =
     ((paystackReference p \<noteq> None) = (paymentMethod p = ''paystack'') \<and>
      (paypalOrderId p \<noteq> None) = (paymentMethod p = ''paypal''))"

text \<open>
  The half of it that asks nothing of a payment whose provider has not answered: a
  correlation field that is populated belongs to the payment's method. At most one of
  the two is populated then, and neither on a \<open>manual\<close> payment.
\<close>

definition correlation_sound :: "payment \<Rightarrow> bool" where
  "correlation_sound p =
     ((paystackReference p = None \<or> paymentMethod p = ''paystack'') \<and>
      (paypalOrderId p = None \<or> paymentMethod p = ''paypal''))"

text \<open>
  The requests that write the payment collection, each with what its provider answers,
  and a run of them from a given collection, one after the other.
\<close>

datatype payment_call =
  PaystackInitialize "init_response outcome option" oid caller payment_request
  | PaystackVerify "verify_response outcome option" "relay option" date caller string
  | PaypalCreateOrder "paypal_order outcome option" oid caller payment_request
  | PaypalCapture "paypal_capture_result outcome option" "relay option" date caller string
  | StripeCreateIntent "payment_intent outcome" oid caller payment_request

fun payment_step :: "payment_call \<Rightarrow> payment list \<Rightarrow> payment list" where
  "payment_step (PaystackInitialize paystack fresh u body) ps =
     snd (paystack_initialize paystack fresh u body ps)"
| "payment_step (PaystackVerify paystack io now u ref) ps =
     fst (snd (paystack_verify paystack io now u ref ps))"
| "payment_step (PaypalCreateOrder paypal fresh u body) ps =
     snd (paypal_create_order paypal fresh u body ps)"
| "payment_step (PaypalCapture paypal io now u ord) ps =
     fst (snd (paypal_capture paypal io now u ord ps))"
| "payment_step (StripeCreateIntent stripe fresh u body) ps =
     snd (stripe_create_payment_intent stripe fresh u body ps)"

fun payment_run :: "payment_call list \<Rightarrow> payment list \<Rightarrow> payment list" where
  "payment_run [] ps = ps"
| "payment_run (c # cs) ps = payment_run cs (payment_step c ps)"

section \<open>Sample documents\<close>

text \<open>Callers, documents and provider answers on which the handlers are run below.\<close>

definition john :: caller where
  "john = \<lparr>user_id = ''u1'', user_isAdmin = False, user_name = ''John''\<rparr>"

definition mary :: caller where
  "mary = \<lparr>user_id = ''u2'', user_isAdmin = False, user_name = ''Mary''\<rparr>"

definition admin :: caller where
  "admin = \<lparr>user_id = ''a1'', user_isAdmin = True, user_name = ''Admin''\<rparr>"

definition camry :: vehicle where
  "camry = \<lparr>vehicle_id = ''v1'', owner = ''u1'', vehicle_make = ''Toyota'',
            vehicle_model = ''Camry'', year = 2020, licensePlate = ''ABC123'', color = None,
            mileage = 42000, maintenanceHistory = [], isActive = True\<rparr>"

definition retired_camry :: vehicle where
  "retired_camry = camry\<lparr>vehicle.isActive := False\<rparr>"

text \<open>Bodies for \<open>PUT /vehicles/:id\<close>: one lowers the mileage, one carries a year the
  validators refuse.\<close>

definition lower_mileage :: vehicle_update where
  "lower_mileage = \<lparr>u_make = None, u_model = None, u_year = None, u_licensePlate = None,
                    u_color = None, u_mileage = Some 10, u_owner = None, u_isActive = None\<rparr>"

definition bad_year :: vehicle_update where
  "bad_year = \<lparr>u_make = None, u_model = None, u_year = Some 1, u_licensePlate = None,
               u_color = None, u_mileage = None, u_owner = None, u_isActive = None\<rparr>"

definition oil_change :: service where
  "oil_change = \<lparr>service_id = ''s1'', user = ''u1'', vehicle_ref = ''v1'',
                 status = ''pending'', completedAt = None, service_notes = []\<rparr>"

definition home_location :: location where
  "home_location = \<lparr>location_id = ''l1'', user = ''u1'', name = Some ''Home'',
                    description = None, latitude = 6.5, longitude = 3.4,
                    location_type = ''home'', isActive = True, isPrimary = True,
                    isVisibleToAdmins = True\<rparr>"

definition work_location :: location where
  "work_location = \<lparr>location_id = ''l2'', user = ''u1'', name = Some ''Garage'',
                    description = None, latitude = 6.6, longitude = 3.5,
                    location_type = ''work'', isActive = True, isPrimary = True,
                    isVisibleToAdmins = True\<rparr>"

definition second_home :: location_create where
  "second_home = \<lparr>c_latitude = 6.45, c_longitude = 3.39, c_name = Some ''Flat'',
                  c_description = None, c_type = Some ''home'', c_isPrimary = Some True\<rparr>"

definition move_to_work :: location_update where
  "move_to_work = \<lparr>l_latitude = None, l_longitude = None, l_name = None,
                   l_description = None, l_type = Some ''work'', l_isPrimary = None,
                   l_isActive = None, l_user = None\<rparr>"

definition hello :: message_body where
  "hello = \<lparr>body_text = '' My car will not start '', recipientId = None\<rparr>"

definition hello_message :: message where
  "hello_message =
     \<lparr>message_id = ''m1'', sender = Some ''u1'', recipient = None, conversation = ''u1'',
      message_text = ''My car will not start'', senderType = ''user'',
      recipientType = ''all_admins'', isRead = [], isAutoReply = False,
      isVisibleToAllAdmins = True, createdAt = 100\<rparr>"

text \<open>An auto-reply that is already in the collection.\<close>

definition stored_auto_reply :: message where
  "stored_auto_reply =
     \<lparr>message_id = ''m0'', sender = Some ''a1'', recipient = Some ''u1'',
      conversation = ''u1'',
      message_text =
        ''Thanks for your message! An admin will review it shortly and get back to you.'',
      senderType = ''admin'', recipientType = ''user'', isRead = [], isAutoReply = True,
      isVisibleToAllAdmins = False, createdAt = 50\<rparr>"

definition naira_request :: payment_request where
  "naira_request = \<lparr>req_amount = 5000, req_currency = ''NGN'', req_description = None\<rparr>"

definition dollar_request :: payment_request where
  "dollar_request = \<lparr>req_amount = 20, req_currency = ''USD'', req_description = None\<rparr>"

definition pending_payment :: payment where
  "pending_payment =
     \<lparr>payment_id = ''p1'', user = ''u1'', amount = 5000, currency = ''NGN'',
      description = None, paymentMethod = ''paystack'', status = ''pending'',
      paystackReference = Some ''p1'', paystackTransactionId = None, paystackStatus = None,
      paypalOrderId = None, paypalCaptureId = None, completedAt = None\<rparr>"

definition completed_payment :: payment where
  "completed_payment =
     \<lparr>payment_id = ''p1'', user = ''u1'', amount = 5000, currency = ''NGN'',
      description = None, paymentMethod = ''paystack'', status = ''completed'',
      paystackReference = Some ''p1'', paystackTransactionId = Some ''4099260516'',
      paystackStatus = Some ''success'', paypalOrderId = None, paypalCaptureId = None,
      completedAt = Some 1000\<rparr>"

definition paypal_payment :: payment where
  "paypal_payment =
     \<lparr>payment_id = ''p2'', user = ''u1'', amount = 20, currency = ''USD'',
      description = None, paymentMethod = ''paypal'', status = ''pending'',
      paystackReference = None, paystackTransactionId = None, paystackStatus = None,
      paypalOrderId = Some ''5O190127TN364715T'', paypalCaptureId = None,
      completedAt = None\<rparr>"

text \<open>John's Paystack payment as it is stored when Paystack could not be reached.\<close>

definition unreferenced_payment :: payment where
  "unreferenced_payment =
     \<lparr>payment_id = ''p0'', user = ''u1'', amount = 5000, currency = ''NGN'',
      description = None, paymentMethod = ''paystack'', status = ''pending'',
      paystackReference = None, paystackTransactionId = None, paystackStatus = None,
      paypalOrderId = None, paypalCaptureId = None, completedAt = None\<rparr>"

text \<open>What PayPal returns when the capture went through.\<close>

definition capture_completed :: "paypal_capture_result outcome option" where
  "capture_completed =
     Some (Returns \<lparr>capture_status = Some ''COMPLETED'',
                     purchase_units = Some [Some ''3C679366HH908993F'']\<rparr>)"

text \<open>The body PayPal returns when it refuses a capture: an error object, with neither
  \<open>status\<close> nor \<open>purchase_units\<close>.\<close>

definition capture_refused :: "paypal_capture_result outcome option" where
  "capture_refused = Some (Returns \<lparr>capture_status = None, purchase_units = None\<rparr>)"

text \<open>What Paystack answers to a verify call when it reports the status \<open>st\<close> for the
  transaction of payment \<open>p1\<close>.\<close>

definition verified :: "string \<Rightarrow> verify_response outcome option" where
  "verified st =
     Some (Returns \<lparr>verify_status = True, verify_message = Some ''Verification successful'',
                     verify_response_data =
                       Some \<lparr>t_id = ''4099260516'', t_status = st, t_amount = 500000,
                             t_currency = ''NGN'', t_metadata = Some (Some ''p1'')\<rparr>\<rparr>)"

definition initialized :: "init_response outcome option" where
  "initialized =
     Some (Returns \<lparr>init_status = True, init_message = Some ''Authorization URL created'',
                     init_response_data =
                       Some \<lparr>reference = Some ''p1'',
                             authorization_url = ''https://checkout.paystack.com/0peioxfhpn'',
                             access_code = ''0peioxfhpn''\<rparr>\<rparr>)"

definition order_created :: "paypal_order outcome option" where
  "order_created =
     Some (Returns \<lparr>order_id = Some ''5O190127TN364715T'',
                     approve_href = Some ''https://www.sandbox.paypal.com/checkoutnow''\<rparr>)"

text \<open>John's PayPal payment once it is captured, at time 2000.\<close>

definition captured_payment :: payment where
  "captured_payment =
     \<lparr>payment_id = ''p2'', user = ''u1'', amount = 20, currency = ''USD'',
      description = None, paymentMethod = ''paypal'', status = ''completed'',
      paystackReference = None, paystackTransactionId = None, paystackStatus = None,
      paypalOrderId = Some ''5O190127TN364715T'', paypalCaptureId = Some ''3C679366HH908993F'',
      completedAt = Some 2000\<rparr>"

text \<open>
  An afternoon of John's: a Paystack payment initialised and verified, a PayPal order
  created and captured, a card payment tried on the older route, and a Paystack
  payment started while Paystack cannot be reached.
\<close>

definition johns_payments :: "payment_call list" where
  "johns_payments =
     [PaystackInitialize initialized ''p1'' john naira_request,
      PaystackVerify (verified ''success'') (Some []) 1000 john ''p1'',
      PaypalCreateOrder order_created ''p2'' john dollar_request,
      PaypalCapture capture_completed (Some []) 2000 john ''5O190127TN364715T'',
      StripeCreateIntent (Returns \<lparr>intent_id = ''pi_3MtwBw'', client_secret = ''pi_3MtwBw_secret''\<rparr>)
        ''p3'' john dollar_request,
      PaystackInitialize (Some (Throws ''connect ETIMEDOUT'')) ''p4'' john naira_request]"

section \<open>Properties\<close>

subsection \<open>Stores\<close>

lemma find_Some_set: "find P xs = Some x \<Longrightarrow> x \<in> set xs \<and> P x"
  by (induction xs) (auto split: if_splits)

lemma find_None_filter: "find P xs = None \<Longrightarrow> filter P xs = []"
  by (induction xs) (auto split: if_splits)

lemma findById_Some:
  "findById ident i docs = Some d \<Longrightarrow> d \<in> set docs \<and> ident d = i"
  unfolding findById_def by (auto dest: find_Some_set)

lemma findById_replace_doc:
  "findById ident i docs = Some d \<Longrightarrow> ident d' = i \<Longrightarrow>
   findById ident i (replace_doc ident d' docs) = Some d'"
  unfolding findById_def replace_doc_def by (induction docs) (auto split: if_splits)

lemma findById_replace_doc_other:
  "ident d' \<noteq> i \<Longrightarrow>
   findById ident i (replace_doc ident d' docs) = findById ident i docs"
  unfolding findById_def replace_doc_def by (induction docs) auto

lemma findById_replace_doc_map:
  "findById ident (ident d) docs = Some s \<Longrightarrow> f d = f s \<Longrightarrow>
   map_option f (findById ident j (replace_doc ident d docs)) =
   map_option f (findById ident j docs)"
  by (cases "j = ident d") (simp_all add: findById_replace_doc findById_replace_doc_other)

lemma replace_doc_twice:
  "ident d' = ident d \<Longrightarrow>
   replace_doc ident d' (replace_doc ident d docs) = replace_doc ident d' docs"
  unfolding replace_doc_def by (induction docs) auto

lemma replace_doc_append:
  "replace_doc ident d (xs @ ys) = replace_doc ident d xs @ replace_doc ident d ys"
  by (simp add: replace_doc_def)

lemma replace_doc_single:
  "ident x = ident d \<Longrightarrow> replace_doc ident d [x] = [d]"
  by (simp add: replace_doc_def)

lemma list_all_replace_doc:
  "list_all P docs \<Longrightarrow> P d \<Longrightarrow> list_all P (replace_doc ident d docs)"
  unfolding replace_doc_def by (induction docs) auto

subsection \<open>Vehicle mileage\<close>

text \<open>
  C9. Under the model's mutation methods a vehicle's mileage never goes down.
  \<open>updateMileage n\<close> leaves the document with the maximum of the previous mileage and
  \<open>n\<close>. \<open>addMaintenanceRecord\<close> raises the mileage to \<open>mileageAtService\<close> exactly when
  that value is given, non-zero and larger than the current mileage, and leaves it as
  it was otherwise. For a document read from the collection, whenever the method's
  save succeeds the stored mileage of that vehicle is the document's.
\<close>

theorem mileage_monotone:
  "mileage (fst (updateMileage maxYear n v vs)) = max (mileage v) n \<and>
   mileage (fst (addMaintenanceRecord maxYear now r v vs)) =
     (case mileageAtService r of
        None \<Rightarrow> mileage v
      | Some m \<Rightarrow> if m \<noteq> 0 \<and> m > mileage v then m else mileage v) \<and>
   mileage v \<le> mileage (fst (updateMileage maxYear n v vs)) \<and>
   mileage v \<le> mileage (fst (addMaintenanceRecord maxYear now r v vs)) \<and>
   (\<forall>vs'. findById vehicle_id (vehicle_id v) vs = Some v \<and>
       snd (updateMileage maxYear n v vs) = Inr vs' \<longrightarrow>
       map_option mileage (findById vehicle_id (vehicle_id v) vs') = Some (max (mileage v) n)) \<and>
   (\<forall>vs'. findById vehicle_id (vehicle_id v) vs = Some v \<and>
       snd (addMaintenanceRecord maxYear now r v vs) = Inr vs' \<longrightarrow>
       map_option mileage (findById vehicle_id (vehicle_id v) vs') =
         Some (mileage (fst (addMaintenanceRecord maxYear now r v vs))))"
  by (auto simp: updateMileage_def addMaintenanceRecord_def save_vehicle_def Let_def
      findById_replace_doc split: if_splits option.splits)

theorem mileage_monotone_witness:
  "findById vehicle_id (vehicle_id camry) [camry] = Some camry \<and>
   snd (updateMileage 2027 45000 camry [camry]) = Inr [camry\<lparr>mileage := 45000\<rparr>] \<and>
   map_option mileage (findById vehicle_id (vehicle_id camry) [camry\<lparr>mileage := 45000\<rparr>]) =
     Some (max (mileage camry) 45000) \<and>
   mileage (fst (updateMileage 2027 30000 camry [camry])) = 42000 \<and>
   mileage (fst (addMaintenanceRecord 2027 1000
      \<lparr>serviceType = Some ''oil_change'', cost = 80, mileageAtService = Some 30000,
        serviceDate = None\<rparr> camry [camry])) = 42000 \<and>
   mileage (fst (addMaintenanceRecord 2027 1000
      \<lparr>serviceType = Some ''oil_change'', cost = 80, mileageAtService = Some 48000,
        serviceDate = None\<rparr> camry [camry])) = 48000"
  using mileage_monotone [of 2027 45000 camry "[camry]"]
  by (simp add: camry_def updateMileage_def addMaintenanceRecord_def save_vehicle_def
      validate_vehicle_def validate_maintenance_def findById_def replace_doc_def Let_def)

subsection \<open>Service status\<close>

lemma status_update_store:
  assumes "user_isAdmin u"
    and "findById service_id i ss = Some s"
    and "validate_service s"
    and "status_update_errors body = []"
  shows "\<exists>s'. snd (update_service_status in_flight now u i body ss) =
               replace_doc service_id s' ss \<and>
          (new_notes body = None \<or> \<not> in_flight \<longrightarrow>
             fst (update_service_status in_flight now u i body ss) =
               Reply 200 True (Some ''Service status updated successfully'') [] (Some s')) \<and>
          service_id s' = i \<and>
          service.status s' = new_status body \<and>
          service.completedAt s' =
            (if new_status body = ''completed'' then Some now else service.completedAt s)"
proof -
  from assms(2) have sid: "service_id s = i" by (auto dest: findById_Some)
  from assms(4) have st: "new_status body \<in> set service_statuses"
    by (auto simp: status_update_errors_def check_def split: if_splits)
  from assms(3) have ns: "list_all (\<lambda>n. note_text n \<noteq> []) (service_notes s)"
    by (simp add: validate_service_def)
  define s2 where "s2 = (if new_status body = ''completed''
      then s\<lparr>service.status := new_status body, service.completedAt := Some now\<rparr>
      else s\<lparr>service.status := new_status body\<rparr>)"
  have s2: "service_id s2 = i" "service.status s2 = new_status body"
    "service.completedAt s2 =
       (if new_status body = ''completed'' then Some now else service.completedAt s)"
    "service_notes s2 = service_notes s"
    using sid by (simp_all add: s2_def)
  have v2: "validate_service s2" using st ns s2 by (simp add: validate_service_def)
  have plain: ?thesis
    if "(case map_option trim (new_notes body) of None \<Rightarrow> [] | Some n \<Rightarrow> n) = []"
  proof -
    have "update_service_status in_flight now u i body ss =
        (Reply 200 True (Some ''Service status updated successfully'') [] (Some s2),
         replace_doc service_id s2 ss)"
      using assms(1,2,4) v2 that
      by (simp add: update_service_status_def Let_def save_service_def s2_def)
    then show ?thesis using s2 by (intro exI[of _ s2]) simp
  qed
  show ?thesis
  proof (cases "new_notes body")
    case None
    then show ?thesis by (intro plain) simp
  next
    case (Some z)
    show ?thesis
    proof (cases "trim z = []")
      case True
      with Some show ?thesis by (intro plain) simp
    next
      case False
      define n where "n = trim z"
      define s3 where "s3 = s2\<lparr>service_notes := service_notes s2 @
              [\<lparr>note_text = n, createdBy = user_id u, note_createdAt = now\<rparr>]\<rparr>"
      have s3: "service_id s3 = i" "service.status s3 = new_status body"
        "service.completedAt s3 =
           (if new_status body = ''completed'' then Some now else service.completedAt s)"
        using s2 by (simp_all add: s3_def)
      have v3: "validate_service s3"
        using v2 False by (simp add: validate_service_def s3_def n_def)
      have added: "addNote now n (user_id u) s2 ss = (s3, Inr (replace_doc service_id s3 ss))"
        using v3 by (simp add: addNote_def Let_def save_service_def s3_def)
      have twice: "replace_doc service_id s3 (replace_doc service_id s3 ss) =
                   replace_doc service_id s3 ss"
        by (simp add: replace_doc_twice)
      have "snd (update_service_status in_flight now u i body ss) =
              replace_doc service_id s3 ss \<and>
          (\<not> in_flight \<longrightarrow> fst (update_service_status in_flight now u i body ss) =
             Reply 200 True (Some ''Service status updated successfully'') [] (Some s3))"
        using assms(1,2,4) Some False v3 twice
        by (simp add: update_service_status_def Let_def save_service_def added
            s2_def[symmetric] n_def[symmetric])
      moreover have "new_notes body \<noteq> None" using Some by simp
      ultimately show ?thesis using s3 by (intro exI[of _ s3]) auto
    qed
  qed
qed

lemma status_update_other_keeps_completedAt:
  assumes "new_status body \<noteq> ''completed''"
  shows "map_option service.completedAt
            (findById service_id j (snd (update_service_status in_flight now u i body ss))) =
         map_option service.completedAt (findById service_id j ss)"
proof (cases "findById service_id i ss")
  case None
  then show ?thesis by (simp add: update_service_status_def Let_def)
next
  case (Some s)
  then have sid: "service_id s = i" by (auto dest: findById_Some)
  have keep: "map_option service.completedAt (findById service_id j (replace_doc service_id d ss)) =
        map_option service.completedAt (findById service_id j ss)"
    if "service_id d = i" "service.completedAt d = service.completedAt s" for d
    using findById_replace_doc_map[of service_id d ss s service.completedAt j] that Some by simp
  have keep2: "map_option service.completedAt
          (findById service_id j (replace_doc service_id d' (replace_doc service_id d ss))) =
        map_option service.completedAt (findById service_id j ss)"
    if "service_id d = i" "service_id d' = i" "service.completedAt d' = service.completedAt s"
    for d d'
    using that keep[of d'] by (simp add: replace_doc_twice)
  show ?thesis
    using assms Some sid
    by (auto simp: update_service_status_def Let_def save_service_def addNote_def keep keep2
        split: option.splits)
qed

text \<open>
  C8. The admin status-update endpoint stamps \<open>completedAt\<close> when and only when the new
  status is \<open>completed\<close>. For an admin caller, a request that passes the route's
  validators and a stored service, the stored service takes the new status, and its
  \<open>completedAt\<close> is the current time if the new status is \<open>completed\<close> and the value it
  had before otherwise; the answer is 200 and carries the stored service, unless notes
  were given and their save was still running. And whoever calls, with whatever body,
  a request whose status is not \<open>completed\<close> leaves the \<open>completedAt\<close> of every stored
  service as it was.
\<close>

theorem status_update_stamps_completion:
  "(user_isAdmin u \<and> findById service_id i ss = Some s \<and> validate_service s \<and>
    status_update_errors body = [] \<longrightarrow>
      map_option service.status
        (findById service_id i (snd (update_service_status in_flight now u i body ss))) =
        Some (new_status body) \<and>
      map_option service.completedAt
        (findById service_id i (snd (update_service_status in_flight now u i body ss))) =
        Some (if new_status body = ''completed'' then Some now else service.completedAt s) \<and>
      (new_notes body = None \<or> \<not> in_flight \<longrightarrow>
         http_status (fst (update_service_status in_flight now u i body ss)) = 200 \<and>
         payload (fst (update_service_status in_flight now u i body ss)) =
           findById service_id i (snd (update_service_status in_flight now u i body ss)))) \<and>
   (new_status body \<noteq> ''completed'' \<longrightarrow>
      (\<forall>j. map_option service.completedAt
             (findById service_id j (snd (update_service_status in_flight now u i body ss))) =
           map_option service.completedAt (findById service_id j ss)))"
proof (intro conjI impI allI)
  assume h: "user_isAdmin u \<and> findById service_id i ss = Some s \<and> validate_service s \<and>
    status_update_errors body = []"
  then obtain s' where
    store: "snd (update_service_status in_flight now u i body ss) = replace_doc service_id s' ss"
    and reply: "new_notes body = None \<or> \<not> in_flight \<longrightarrow>
             fst (update_service_status in_flight now u i body ss) =
               Reply 200 True (Some ''Service status updated successfully'') [] (Some s')"
    and s': "service_id s' = i" "service.status s' = new_status body"
      "service.completedAt s' =
         (if new_status body = ''completed'' then Some now else service.completedAt s)"
    using status_update_store[of u i ss s body in_flight now] by blast
  from h s'(1) have found: "findById service_id i (replace_doc service_id s' ss) = Some s'"
    by (simp add: findById_replace_doc)
  show "map_option service.status
        (findById service_id i (snd (update_service_status in_flight now u i body ss))) =
        Some (new_status body)"
    by (simp add: store found s')
  show "map_option service.completedAt
        (findById service_id i (snd (update_service_status in_flight now u i body ss))) =
        Some (if new_status body = ''completed'' then Some now else service.completedAt s)"
    by (simp add: store found s')
  assume "new_notes body = None \<or> \<not> in_flight"
  with reply have r: "fst (update_service_status in_flight now u i body ss) =
               Reply 200 True (Some ''Service status updated successfully'') [] (Some s')"
    by blast
  show "http_status (fst (update_service_status in_flight now u i body ss)) = 200"
    by (simp add: r)
  show "payload (fst (update_service_status in_flight now u i body ss)) =
        findById service_id i (snd (update_service_status in_flight now u i body ss))"
    by (simp add: r store found)
next
  fix j
  assume "new_status body \<noteq> ''completed''"
  then show "map_option service.completedAt
             (findById service_id j (snd (update_service_status in_flight now u i body ss))) =
           map_option service.completedAt (findById service_id j ss)"
    by (rule status_update_other_keeps_completedAt)
qed

theorem status_update_stamps_completion_witness:
  "user_isAdmin admin \<and> findById service_id ''s1'' [oil_change] = Some oil_change \<and>
   validate_service oil_change \<and>
   status_update_errors \<lparr>new_status = ''completed'', new_notes = None\<rparr> = [] \<and>
   update_service_status True 5000 admin ''s1''
       \<lparr>new_status = ''completed'', new_notes = None\<rparr> [oil_change] =
     (Reply 200 True (Some ''Service status updated successfully'') []
        (Some (oil_change\<lparr>service.status := ''completed'',
           service.completedAt := Some 5000\<rparr>)),
      [oil_change\<lparr>service.status := ''completed'', service.completedAt := Some 5000\<rparr>]) \<and>
   status_update_errors \<lparr>new_status = ''completed'', new_notes = Some ''done''\<rparr> = [] \<and>
   snd (update_service_status True 5000 admin ''s1''
       \<lparr>new_status = ''completed'', new_notes = Some ''done''\<rparr> [oil_change]) =
     [oil_change\<lparr>service.status := ''completed'', service.completedAt := Some 5000,
        service_notes := [\<lparr>note_text = ''done'', createdBy = ''a1'',
                             note_createdAt = 5000\<rparr>]\<rparr>] \<and>
   ''approved'' \<noteq> ''completed'' \<and>
   status_update_errors \<lparr>new_status = ''approved'', new_notes = None\<rparr> = [] \<and>
   map service.completedAt
     (snd (update_service_status True 5000 admin ''s1''
        \<lparr>new_status = ''approved'', new_notes = None\<rparr> [oil_change])) = [None]"
  using status_update_stamps_completion
          [of admin "''s1''" "[oil_change]" oil_change
              "\<lparr>new_status = ''completed'', new_notes = None\<rparr>" True 5000]
        status_update_stamps_completion
          [of admin "''s1''" "[oil_change]" oil_change
              "\<lparr>new_status = ''completed'', new_notes = Some ''done''\<rparr>" True 5000]
        status_update_stamps_completion
          [of admin "''s1''" "[oil_change]" oil_change
              "\<lparr>new_status = ''approved'', new_notes = None\<rparr>" True 5000]
  by (simp add: admin_def oil_change_def update_service_status_def status_update_errors_def
      check_def service_statuses_def isLength_def trim_def is_space_def findById_def
      replace_doc_def save_service_def validate_service_def addNote_def Let_def)

subsection \<open>Ownership\<close>

lemma foreign_vehicle:
  assumes "\<not> user_isAdmin u" and "findById vehicle_id i vs = Some v" and "owner v \<noteq> user_id u"
  shows "payload (get_vehicle users u i vs) = None \<and>
         payload (fst (update_vehicle maxYear u i body vs)) = None \<and>
         snd (update_vehicle maxYear u i body vs) = vs \<and>
         delete_vehicle maxYear u i vs =
           (Reply 403 False (Some ''Not authorized to delete this vehicle'') [] None, vs) \<and>
         (vehicle.isActive v \<and> owner v \<in> set users \<longrightarrow>
            http_status (get_vehicle users u i vs) = 403) \<and>
         (vehicle.isActive v \<and>
          validate_vehicle_update maxYear (sanitize_vehicle_update body) = [] \<longrightarrow>
            http_status (fst (update_vehicle maxYear u i body vs)) = 403)"
  using assms
  by (simp add: get_vehicle_def update_vehicle_def delete_vehicle_def Let_def)

lemma foreign_service:
  assumes "\<not> user_isAdmin u" and "findById service_id i ss = Some s"
    and "service.user s \<noteq> user_id u"
  shows "payload (get_service users u i ss) = None \<and>
         (service.user s \<in> set users \<longrightarrow> http_status (get_service users u i ss) = 403) \<and>
         update_service_status in_flight now u i body ss =
           (Reply 403 False (Some ''Admin access required'') [] None, ss)"
  using assms
  by (simp add: get_service_def update_service_status_def)

lemma foreign_location:
  assumes "\<not> user_isAdmin u" and "findById location_id i ls = Some l"
    and "location.user l \<noteq> user_id u"
  shows "payload (fst (update_location u i body ls)) = None \<and>
         snd (update_location u i body ls) = ls \<and>
         (update_location_errors body = [] \<longrightarrow>
            http_status (fst (update_location u i body ls)) = 403) \<and>
         delete_location u i ls =
           (Reply 403 False (Some ''Not authorized to delete this location'') [] None, ls)"
  using assms
  by (simp add: update_location_def delete_location_def Let_def)

text \<open>
  C5, as the code has it. For a caller who is not an admin and a stored vehicle,
  service or location whose owner is another user, no handler that reads or writes one
  document by its id puts the document in its reply, and none writes anything. The
  reply is 403 from \<open>DELETE /vehicles/:id\<close>, \<open>PUT /services/:id/status\<close> and
  \<open>DELETE /locations/:id\<close> always; from \<open>GET /vehicles/:id\<close> when the vehicle is active
  and its owner is a stored user; from \<open>PUT /vehicles/:id\<close> when the vehicle is active
  and the body passes the validators; from \<open>GET /services/:id\<close> when the service's user
  is a stored user; from \<open>PUT /locations/:id\<close> when the body passes the validators.
\<close>

theorem foreign_resource_never_disclosed:
  assumes "\<not> user_isAdmin u"
  shows "(findById vehicle_id vi vs = Some v \<and> owner v \<noteq> user_id u \<longrightarrow>
           payload (get_vehicle users u vi vs) = None \<and>
           payload (fst (update_vehicle maxYear u vi vbody vs)) = None \<and>
           snd (update_vehicle maxYear u vi vbody vs) = vs \<and>
           delete_vehicle maxYear u vi vs =
             (Reply 403 False (Some ''Not authorized to delete this vehicle'') [] None, vs) \<and>
           (vehicle.isActive v \<and> owner v \<in> set users \<longrightarrow>
              http_status (get_vehicle users u vi vs) = 403) \<and>
           (vehicle.isActive v \<and>
            validate_vehicle_update maxYear (sanitize_vehicle_update vbody) = [] \<longrightarrow>
              http_status (fst (update_vehicle maxYear u vi vbody vs)) = 403)) \<and>
         (findById service_id si ss = Some s \<and> service.user s \<noteq> user_id u \<longrightarrow>
           payload (get_service users u si ss) = None \<and>
           (service.user s \<in> set users \<longrightarrow> http_status (get_service users u si ss) = 403) \<and>
           update_service_status in_flight now u si sbody ss =
             (Reply 403 False (Some ''Admin access required'') [] None, ss)) \<and>
         (findById location_id li ls = Some l \<and> location.user l \<noteq> user_id u \<longrightarrow>
           payload (fst (update_location u li lbody ls)) = None \<and>
           snd (update_location u li lbody ls) = ls \<and>
           (update_location_errors lbody = [] \<longrightarrow>
              http_status (fst (update_location u li lbody ls)) = 403) \<and>
           delete_location u li ls =
             (Reply 403 False (Some ''Not authorized to delete this location'') [] None, ls))"
  using foreign_vehicle[OF assms, of vi vs v users maxYear vbody]
        foreign_service[OF assms, of si ss s users in_flight now sbody]
        foreign_location[OF assms, of li ls l lbody]
  by blast

theorem foreign_resource_never_disclosed_witness:
  "\<not> user_isAdmin mary \<and>
   findById vehicle_id ''v1'' [camry] = Some camry \<and> owner camry \<noteq> user_id mary \<and>
   vehicle.isActive camry \<and> owner camry \<in> set [''u1'', ''u2''] \<and>
   validate_vehicle_update 2027 (sanitize_vehicle_update lower_mileage) = [] \<and>
   get_vehicle [''u1'', ''u2''] mary ''v1'' [camry] =
     Reply 403 False (Some ''Not authorized to view this vehicle'') [] None \<and>
   update_vehicle 2027 mary ''v1'' lower_mileage [camry] =
     (Reply 403 False (Some ''Not authorized to update this vehicle'') [] None, [camry]) \<and>
   delete_vehicle 2027 mary ''v1'' [camry] =
     (Reply 403 False (Some ''Not authorized to delete this vehicle'') [] None, [camry]) \<and>
   findById service_id ''s1'' [oil_change] = Some oil_change \<and>
   service.user oil_change \<noteq> user_id mary \<and>
   get_service [''u1'', ''u2''] mary ''s1'' [oil_change] =
     Reply 403 False (Some ''Not authorized to view this service'') [] None \<and>
   findById location_id ''l1'' [home_location] = Some home_location \<and>
   location.user home_location \<noteq> user_id mary \<and>
   update_location_errors move_to_work = [] \<and>
   update_location mary ''l1'' move_to_work [home_location] =
     (Reply 403 False (Some ''Not authorized to update this location'') [] None,
      [home_location])"
  using foreign_resource_never_disclosed
          [of mary "''v1''" "[camry]" camry "[''u1'', ''u2'']" 2027 lower_mileage
              "''s1''" "[oil_change]" oil_change True 0
              "\<lparr>new_status = ''completed'', new_notes = None\<rparr>"
              "''l1''" "[home_location]" home_location move_to_work]
  by (simp add: mary_def camry_def oil_change_def home_location_def move_to_work_def
      lower_mileage_def findById_def get_vehicle_def update_vehicle_def delete_vehicle_def
      get_service_def update_location_def update_location_errors_def
      validate_vehicle_update_def sanitize_vehicle_update_def check_def location_types_def
      Let_def)

text \<open>
  The claim as the spec states it fails where another check comes first: a vehicle
  that was soft-deleted is answered 404 by \<open>GET\<close>, and a body the validators refuse is
  answered 400 by \<open>PUT\<close>, to a caller who does not own the vehicle.
\<close>

theorem inactive_vehicle_is_404:
  "\<not> user_isAdmin mary \<and>
   findById vehicle_id ''v1'' [retired_camry] = Some retired_camry \<and>
   owner retired_camry \<noteq> user_id mary \<and>
   http_status (get_vehicle [''u1'', ''u2''] mary ''v1'' [retired_camry]) = 404 \<and>
   findById vehicle_id ''v1'' [camry] = Some camry \<and> owner camry \<noteq> user_id mary \<and>
   http_status (fst (update_vehicle 2027 mary ''v1'' bad_year [camry])) = 400"
  by (simp add: mary_def camry_def retired_camry_def bad_year_def findById_def get_vehicle_def
      update_vehicle_def validate_vehicle_update_def sanitize_vehicle_update_def check_def
      Let_def)

subsection \<open>Primary locations\<close>

lemma pre_save_location_clears:
  assumes "isPrimary this"
    and "l \<in> set (pre_save_location True this ls)"
    and "location.user l = location.user this"
    and "location_type l = location_type this"
    and "location_id l \<noteq> location_id this"
  shows "\<not> isPrimary l"
  using assms by (auto simp: pre_save_location_def split: if_splits)

text \<open>
  C6. The hook that keeps one primary location for each user and type runs only when
  \<open>isPrimary\<close> itself is modified. John has a primary home and a primary workplace;
  he changes the type of the first to \<open>work\<close>. The update is answered 200, the hook
  does not run, and John has two primary locations of type \<open>work\<close>.
\<close>

theorem type_change_leaves_two_primaries:
  "one_primary [home_location, work_location] \<and>
   update_location john ''l1'' move_to_work [home_location, work_location] =
     (Reply 200 True (Some ''Location updated successfully'') []
        (Some (home_location\<lparr>location_type := ''work''\<rparr>)),
      [home_location\<lparr>location_type := ''work''\<rparr>, work_location]) \<and>
   primaries ''u1'' ''work'' [home_location\<lparr>location_type := ''work''\<rparr>, work_location] =
     [home_location\<lparr>location_type := ''work''\<rparr>, work_location] \<and>
   \<not> one_primary (snd (update_location john ''l1'' move_to_work [home_location, work_location]))"
  by (simp add: john_def home_location_def work_location_def move_to_work_def
      update_location_def update_location_errors_def apply_location_update_def
      save_location_def pre_save_location_def validate_location_def location_types_def
      findById_def replace_doc_def one_primary_def primaries_def check_def Let_def)

subsection \<open>Messages\<close>

lemma set_newest_first: "set (newest_first ms) = set ms"
  by (simp add: newest_first_def)

lemma post_message_by_user:
  assumes "\<not> user_isAdmin u" and "user_id u \<noteq> []" and "message_errors (body_text body) = []"
  shows "\<exists>m. m \<in> set (fst (snd (post_message io now fresh fresh2 u body ms))) \<and>
             message_id m = fresh \<and> sender m = Some (user_id u) \<and>
             message_text m = trim (body_text body) \<and> senderType m = ''user'' \<and>
             m \<in> set (getAllAdminSubmissions
                        (fst (snd (post_message io now fresh fresh2 u body ms))))"
proof -
  let ?m = "\<lparr>message_id = fresh, sender = Some (user_id u), recipient = None,
              conversation = user_id u, message_text = trim (body_text body),
              senderType = ''user'', recipientType = ''all_admins'', isRead = [],
              isAutoReply = False, isVisibleToAllAdmins = True, createdAt = now\<rparr>"
  from assms(3) have len: "trim (body_text body) \<noteq> []" "length (trim (body_text body)) \<le> 1000"
    by (auto simp: message_errors_def check_def isLength_def split: if_splits)
  have valid: "validate_message ?m" using assms(2) len by (simp add: validate_message_def)
  have sub: "set (ms @ [?m]) \<subseteq> set (snd (sendAutoReply now fresh2 (user_id u) (ms @ [?m])))"
    by (auto simp: sendAutoReply_def save_new_message_def Let_def split: option.splits)
  have store: "fst (snd (post_message io now fresh fresh2 u body ms)) =
        snd (sendAutoReply now fresh2 (user_id u) (ms @ [?m]))"
    using assms valid
    by (auto simp: post_message_def Let_def save_new_message_def split: option.splits prod.splits)
  have "?m \<in> set (snd (sendAutoReply now fresh2 (user_id u) (ms @ [?m])))"
    using sub by auto
  then show ?thesis
    unfolding store
    by (intro exI[of _ ?m]) (simp add: getAllAdminSubmissions_def set_newest_first)
qed

text \<open>
  C7. A caller who is not an admin sends a message whose trimmed text has between 1
  and 1000 characters. Whatever the socket server is (absent, without sessions, or with
  any sessions connected), the message is stored with the caller as its sender, and it
  is among the messages \<open>getAllAdminSubmissions\<close> returns, which is what \<open>GET /messages\<close>
  answers to every admin who names no user.
\<close>

theorem user_message_reaches_admin_submissions:
  assumes "\<not> user_isAdmin u" and "user_id u \<noteq> []"
    and "message_errors (body_text body) = []"
    and "user_isAdmin a"
  shows "\<exists>m. m \<in> set (fst (snd (post_message io now fresh fresh2 u body ms))) \<and>
             message_id m = fresh \<and> sender m = Some (user_id u) \<and>
             message_text m = trim (body_text body) \<and>
             payload (get_messages a None
                        (fst (snd (post_message io now fresh fresh2 u body ms)))) =
               Some (getAllAdminSubmissions
                       (fst (snd (post_message io now fresh fresh2 u body ms)))) \<and>
             m \<in> set (getAllAdminSubmissions
                        (fst (snd (post_message io now fresh fresh2 u body ms))))"
  using post_message_by_user[OF assms(1,2,3), of io now fresh fresh2 ms] assms(4)
  by (auto simp: get_messages_def)

theorem user_message_reaches_admin_submissions_witness:
  "\<not> user_isAdmin john \<and> user_id john \<noteq> [] \<and> message_errors (body_text hello) = [] \<and>
   user_isAdmin admin \<and>
   fst (snd (post_message None 100 ''m1'' ''m2'' john hello [])) = [hello_message] \<and>
   fst (snd (post_message (Some []) 100 ''m1'' ''m2'' john hello [])) = [hello_message] \<and>
   payload (get_messages admin None [hello_message]) = Some [hello_message]"
  using user_message_reaches_admin_submissions
          [of john hello admin None 100 "''m1''" "''m2''" "[]"]
  by (simp add: john_def admin_def hello_def hello_message_def post_message_def
      message_errors_def check_def isLength_def trim_def is_space_def save_new_message_def
      validate_message_def sendAutoReply_def get_messages_def getAllAdminSubmissions_def
      newest_first_def Let_def)

subsection \<open>Auto-replies\<close>

lemma sendAutoReply_existing:
  "auto_replies userId ms \<noteq> [] \<Longrightarrow> sendAutoReply now fresh userId ms = (None, ms)"
  by (auto simp: sendAutoReply_def auto_replies_def dest: find_None_filter split: option.splits)

lemma sendAutoReply_count:
  assumes "single_auto_reply c ms"
  shows "single_auto_reply c (snd (sendAutoReply now fresh userId ms))"
proof (cases "find (\<lambda>m. conversation m = userId \<and> isAutoReply m) ms")
  case None
  then have none: "auto_replies userId ms = []"
    unfolding auto_replies_def by (rule find_None_filter)
  show ?thesis
  proof (cases "c = userId")
    case True
    with none None show ?thesis
      by (auto simp: sendAutoReply_def Let_def save_new_message_def auto_replies_def
          single_auto_reply_def)
  next
    case False
    with assms None show ?thesis
      by (auto simp: sendAutoReply_def Let_def save_new_message_def auto_replies_def
          single_auto_reply_def)
  qed
next
  case (Some m)
  with assms show ?thesis by (simp add: sendAutoReply_def)
qed

lemma post_message_count:
  assumes "single_auto_reply c ms"
  shows "single_auto_reply c (fst (snd (post_message io now fresh fresh2 u body ms)))"
proof -
  have grow: "single_auto_reply c (ms @ [m])" if "\<not> isAutoReply m" for m
    using assms that by (simp add: auto_replies_def single_auto_reply_def)
  have grow2: "single_auto_reply c (snd (sendAutoReply now fresh2 i (ms @ [m])))"
    if "\<not> isAutoReply m" for m i
    using grow[OF that] by (rule sendAutoReply_count)
  show ?thesis
    using assms
    by (simp add: post_message_def Let_def save_new_message_def grow grow2 case_prod_beta
        split: option.split)
qed

lemma broadcast_message_count:
  assumes "single_auto_reply c ms"
  shows "single_auto_reply c (fst (snd (broadcast_message io now fresh u body ms)))"
proof -
  have grow: "single_auto_reply c (ms @ [m])" if "\<not> isAutoReply m" for m
    using assms that by (simp add: auto_replies_def single_auto_reply_def)
  show ?thesis
    using assms
    by (simp add: broadcast_message_def Let_def save_new_message_def grow split: option.split)
qed

lemma markAsReadByAdmin_count:
  "single_auto_reply c (markAsReadByAdmin now conversationId adminId ms) =
   single_auto_reply c ms"
proof -
  have "length (auto_replies c (markAsReadByAdmin now conversationId adminId ms)) =
        length (auto_replies c ms)"
    unfolding auto_replies_def markAsReadByAdmin_def by (induction ms) auto
  then show ?thesis by (simp add: single_auto_reply_def)
qed

lemma message_step_count:
  "single_auto_reply c ms \<Longrightarrow> single_auto_reply c (message_step r ms)"
  by (cases r) (simp_all add: post_message_count broadcast_message_count
      markAsReadByAdmin_count)

lemma message_run_count:
  "single_auto_reply c ms \<Longrightarrow> single_auto_reply c (message_run rs ms)"
  by (induction rs arbitrary: ms) (simp_all add: message_step_count)

text \<open>
  C10. \<open>sendAutoReply\<close> looks for an auto-reply in the user's conversation first, and
  when there is one it returns null and stores nothing. So a collection in which a
  conversation holds at most one auto-reply stays so under any run of the requests that
  write messages (sends by anyone, broadcasts, read marks), and from the empty
  collection no run ever puts a second auto-reply into a conversation.
\<close>

theorem at_most_one_auto_reply:
  "(auto_replies userId ms \<noteq> [] \<longrightarrow> sendAutoReply now fresh userId ms = (None, ms)) \<and>
   (single_auto_reply c ms \<longrightarrow> single_auto_reply c (message_run rs ms)) \<and>
   single_auto_reply c (message_run rs [])"
proof (intro conjI impI)
  assume "auto_replies userId ms \<noteq> []"
  then show "sendAutoReply now fresh userId ms = (None, ms)" by (rule sendAutoReply_existing)
next
  assume "single_auto_reply c ms"
  then show "single_auto_reply c (message_run rs ms)" by (rule message_run_count)
next
  have "single_auto_reply c []" by (simp add: single_auto_reply_def auto_replies_def)
  then show "single_auto_reply c (message_run rs [])" by (rule message_run_count)
qed

theorem at_most_one_auto_reply_witness:
  "auto_replies ''u1'' [stored_auto_reply, hello_message] = [stored_auto_reply] \<and>
   sendAutoReply 200 ''m2'' ''u1'' [stored_auto_reply, hello_message] =
     (None, [stored_auto_reply, hello_message]) \<and>
   single_auto_reply ''u1'' [stored_auto_reply, hello_message] \<and>
   length (auto_replies ''u1''
     (message_run [PostMessage None 300 ''m3'' ''m4'' john hello,
                   PostMessage None 400 ''m5'' ''m6'' john hello]
        [stored_auto_reply, hello_message])) = 1"
proof -
  have run: "message_run [PostMessage None 300 ''m3'' ''m4'' john hello,
                   PostMessage None 400 ''m5'' ''m6'' john hello]
        [stored_auto_reply, hello_message] =
      [stored_auto_reply, hello_message,
       hello_message\<lparr>message_id := ''m3'', createdAt := 300\<rparr>,
       hello_message\<lparr>message_id := ''m5'', createdAt := 400\<rparr>]"
    by (simp add: john_def hello_def hello_message_def stored_auto_reply_def post_message_def
        message_errors_def check_def isLength_def trim_def is_space_def save_new_message_def
        validate_message_def sendAutoReply_def Let_def)
  show ?thesis
    using at_most_one_auto_reply
            [of "''u1''" "[stored_auto_reply, hello_message]" 200 "''m2''" "''u1''"
                "[PostMessage None 300 ''m3'' ''m4'' john hello,
                  PostMessage None 400 ''m5'' ''m6'' john hello]"]
    unfolding run
    by (simp add: hello_message_def stored_auto_reply_def auto_replies_def
        single_auto_reply_def sendAutoReply_def)
qed

subsection \<open>Payment verification\<close>

text \<open>
  C3. When the provider's verify call throws, and when it returns a response whose
  \<open>status\<close> is false (which the handler turns into a throw), \<open>POST /paystack/verify\<close>
  answers 500 without success, the payment collection is what it was, and nothing is
  emitted.
\<close>

theorem verify_provider_failure_keeps_store:
  assumes "ref \<noteq> []"
  shows "paystack_verify (Some (Throws m)) io now u ref ps =
           (Reply 500 False (message_or m ''Error verifying payment'') [] None, ps, []) \<and>
         (\<not> verify_status response \<longrightarrow>
            http_status (fst (paystack_verify (Some (Returns response)) io now u ref ps)) = 500 \<and>
            \<not> success (fst (paystack_verify (Some (Returns response)) io now u ref ps)) \<and>
            snd (paystack_verify (Some (Returns response)) io now u ref ps) = (ps, []))"
  using assms by (simp add: paystack_verify_def check_def)

theorem verify_provider_failure_keeps_store_witness:
  "''p1'' \<noteq> [] \<and>
   paystack_verify (Some (Throws ''connect ETIMEDOUT'')) (Some []) 2000 john ''p1''
       [pending_payment] =
     (Reply 500 False (Some ''connect ETIMEDOUT'') [] None, [pending_payment], []) \<and>
   \<not> verify_status \<lparr>verify_status = False, verify_message = Some ''Invalid key'',
                      verify_response_data = None\<rparr> \<and>
   paystack_verify
       (Some (Returns \<lparr>verify_status = False, verify_message = Some ''Invalid key'',
                        verify_response_data = None\<rparr>)) (Some []) 2000 john ''p1''
       [pending_payment] =
     (Reply 500 False (Some ''Invalid key'') [] None, [pending_payment], [])"
  using verify_provider_failure_keeps_store
          [of "''p1''" "''connect ETIMEDOUT''" "Some []" 2000 john "[pending_payment]"
              "\<lparr>verify_status = False, verify_message = Some ''Invalid key'',
                verify_response_data = None\<rparr>"]
  by (simp add: paystack_verify_def check_def message_or_def)




text \<open>
  C4. The handler maps every status but \<open>success\<close> to \<open>failed\<close>, and copies the
  reported status into \<open>paystackStatus\<close>, whose enumeration in the schema lacks some
  of the statuses Paystack reports. John's payment is \<open>pending\<close> and Paystack reports
  \<open>reversed\<close>: the save is refused, the answer is 500, and the payment is still
  \<open>pending\<close>. The capture handler reads \<open>capture.purchase_units[0]\<close> before it saves:
  when PayPal refuses the capture with an error body, the read throws and John's PayPal
  payment is still \<open>pending\<close> too.
\<close>

theorem reversed_status_leaves_pending:
  "paystack_verify (verified ''reversed'') (Some []) 2000 john ''p1'' [pending_payment] =
     (Reply 500 False (Some ''Payment validation failed'') [] None, [pending_payment], []) \<and>
   payment.status pending_payment = ''pending'' \<and>
   paypal_capture capture_refused (Some []) 2000 john ''5O190127TN364715T'' [paypal_payment] =
     (Reply 500 False (Some ''Error capturing PayPal payment'') [] None, [paypal_payment], []) \<and>
   payment.status paypal_payment = ''pending''"
  by (simp add: verified_def pending_payment_def john_def paystack_verify_def check_def
      findById_def save_payment_def validate_payment_def payment_currencies_def
      payment_methods_def payment_statuses_def paystack_statuses_def message_or_def
      capture_refused_def paypal_payment_def paypal_capture_def)

subsection \<open>Correlation fields\<close>

lemma correlation_sound_replace:
  assumes "list_all correlation_sound ps" and "find P ps = Some p"
    and "paystackReference q = paystackReference p" and "paypalOrderId q = paypalOrderId p"
    and "paymentMethod q = paymentMethod p"
  shows "list_all correlation_sound (replace_doc payment_id q ps)"
proof -
  from assms(2) have "p \<in> set ps" by (auto dest: find_Some_set)
  with assms(1) have "correlation_sound p" by (simp add: list_all_iff)
  with assms(3,4,5) have "correlation_sound q" by (simp add: correlation_sound_def)
  with assms(1) show ?thesis by (rule list_all_replace_doc)
qed

lemma paystack_verify_sound:
  assumes "list_all correlation_sound ps"
  shows "list_all correlation_sound (fst (snd (paystack_verify paystack io now u ref ps)))"
  using assms
  by (auto simp: paystack_verify_def check_def save_payment_def Let_def findById_def
      intro!: correlation_sound_replace
      split: option.splits outcome.splits)

lemma paypal_capture_sound:
  assumes "list_all correlation_sound ps"
  shows "list_all correlation_sound (fst (snd (paypal_capture paypal io now u ord ps)))"
  using assms
  by (auto simp: paypal_capture_def check_def save_payment_def Let_def
      intro!: correlation_sound_replace
      split: option.splits outcome.splits)

lemma paystack_initialize_sound:
  assumes "list_all correlation_sound ps"
  shows "list_all correlation_sound (snd (paystack_initialize paystack fresh u body ps))"
  using assms
  by (simp add: paystack_initialize_def save_payment_def save_new_payment_def Let_def
      list_all_replace_doc replace_doc_append replace_doc_single correlation_sound_def
      split: option.split outcome.split)

lemma paypal_create_order_sound:
  assumes "list_all correlation_sound ps"
  shows "list_all correlation_sound (snd (paypal_create_order paypal fresh u body ps))"
  using assms
  by (simp add: paypal_create_order_def save_new_payment_def Let_def correlation_sound_def
      split: option.split outcome.split)

lemma stripe_never_persists:
  "snd (stripe_create_payment_intent stripe fresh u body ps) = ps"
  by (simp add: stripe_create_payment_intent_def save_new_payment_def Let_def
      validate_payment_def payment_methods_def
      split: option.split outcome.split)

lemma payment_step_sound:
  "list_all correlation_sound ps \<Longrightarrow> list_all correlation_sound (payment_step c ps)"
  by (cases c) (simp_all add: paystack_initialize_sound paystack_verify_sound
      paypal_create_order_sound paypal_capture_sound stripe_never_persists)

lemma payment_run_sound:
  "list_all correlation_sound ps \<Longrightarrow> list_all correlation_sound (payment_run cs ps)"
  by (induction cs arbitrary: ps) (simp_all add: payment_step_sound)

lemma paystack_initialize_reference:
  "http_status (fst (paystack_initialize paystack fresh u body ps)) = 200 \<longrightarrow>
   (\<exists>response d.
      paystack = Some (Returns response) \<and> init_response_data response = Some d \<and>
      (\<exists>p \<in> set (snd (paystack_initialize paystack fresh u body ps)).
         payment_id p = fresh \<and> paymentMethod p = ''paystack'' \<and>
         paystackReference p = reference d \<and> paypalOrderId p = None))"
  by (simp add: paystack_initialize_def save_payment_def save_new_payment_def Let_def
      replace_doc_append replace_doc_single
      split: option.split outcome.split)

lemma paypal_create_order_id:
  "http_status (fst (paypal_create_order paypal fresh u body ps)) = 200 \<longrightarrow>
   (\<exists>order.
      paypal = Some (Returns order) \<and>
      (\<exists>p \<in> set (snd (paypal_create_order paypal fresh u body ps)).
         payment_id p = fresh \<and> paymentMethod p = ''paypal'' \<and>
         paypalOrderId p = order_id order \<and> paystackReference p = None))"
  by (simp add: paypal_create_order_def save_new_payment_def Let_def
      split: option.split outcome.split)

text \<open>
  C2, as the code has it. A correlation field that is populated belongs to the
  payment's method: a Paystack reference is found only on a \<open>paystack\<close> payment and a
  PayPal order id only on a \<open>paypal\<close> payment, so never both and never on another
  method. Every run of the requests that write payments (initialise, verify, create
  order, capture, the older card route), whatever the providers answer or throw, keeps
  that in a collection that has it, and so establishes it from the empty collection. A
  Paystack initialisation is answered 200 only when Paystack returned data, and then
  the new payment is stored with method \<open>paystack\<close>, the reference of that answer and no
  PayPal order id. A PayPal order creation is answered 200 only when PayPal returned
  an order, and then the new payment is stored with method \<open>paypal\<close>, the id of that
  order and no Paystack reference. The older card route stores nothing (its method is
  not one the schema admits). The converse is not kept: a payment is stored before
  Paystack is called, so a \<open>paystack\<close> payment whose provider call failed, or whose
  provider answer carried no reference, stays without a reference.
\<close>

theorem correlation_fields_belong_to_method:
  "(list_all correlation_sound ps \<longrightarrow>
      list_all correlation_sound (payment_run calls ps)) \<and>
   list_all correlation_sound (payment_run calls []) \<and>
   (http_status (fst (paystack_initialize paystack fresh u body ps)) = 200 \<longrightarrow>
      (\<exists>response d.
         paystack = Some (Returns response) \<and> init_response_data response = Some d \<and>
         (\<exists>p \<in> set (snd (paystack_initialize paystack fresh u body ps)).
            payment_id p = fresh \<and> paymentMethod p = ''paystack'' \<and>
            paystackReference p = reference d \<and> paypalOrderId p = None))) \<and>
   (http_status (fst (paypal_create_order paypal fresh' u' body' ps)) = 200 \<longrightarrow>
      (\<exists>order.
         paypal = Some (Returns order) \<and>
         (\<exists>p \<in> set (snd (paypal_create_order paypal fresh' u' body' ps)).
            payment_id p = fresh' \<and> paymentMethod p = ''paypal'' \<and>
            paypalOrderId p = order_id order \<and> paystackReference p = None))) \<and>
   snd (stripe_create_payment_intent stripe fresh'' u'' body'' ps) = ps"
proof -
  have run: "list_all correlation_sound ps \<longrightarrow>
      list_all correlation_sound (payment_run calls ps)"
    by (simp add: payment_run_sound)
  have fresh_run: "list_all correlation_sound (payment_run calls [])"
    by (simp add: payment_run_sound)
  from run fresh_run
       paystack_initialize_reference[of paystack fresh u body ps]
       paypal_create_order_id[of paypal fresh' u' body' ps]
       stripe_never_persists[of stripe fresh'' u'' body'' ps]
  show ?thesis by (intro conjI)
qed

theorem correlation_fields_belong_to_method_witness:
  "list_all correlation_sound [unreferenced_payment] \<and>
   \<not> correlation_consistent unreferenced_payment \<and>
   payment_run johns_payments [unreferenced_payment] =
     [unreferenced_payment, completed_payment, captured_payment,
      unreferenced_payment\<lparr>payment_id := ''p4''\<rparr>] \<and>
   list_all correlation_sound (payment_run johns_payments [unreferenced_payment]) \<and>
   list_all correlation_sound (payment_run johns_payments []) \<and>
   http_status (fst (paystack_initialize initialized ''p1'' john naira_request
      [unreferenced_payment])) = 200 \<and>
   snd (paystack_initialize initialized ''p1'' john naira_request [unreferenced_payment]) =
     [unreferenced_payment, pending_payment] \<and>
   paystackReference pending_payment = Some ''p1'' \<and>
   http_status (fst (paypal_create_order order_created ''p2'' john dollar_request
      [unreferenced_payment])) = 200 \<and>
   snd (paypal_create_order order_created ''p2'' john dollar_request [unreferenced_payment]) =
     [unreferenced_payment, paypal_payment] \<and>
   paypalOrderId paypal_payment = Some ''5O190127TN364715T''"
  using correlation_fields_belong_to_method
          [of "[unreferenced_payment]" johns_payments initialized "''p1''" john naira_request
              order_created "''p2''" john dollar_request]
  by (simp add: johns_payments_def unreferenced_payment_def pending_payment_def
      completed_payment_def paypal_payment_def captured_payment_def initialized_def
      verified_def order_created_def capture_completed_def john_def naira_request_def
      dollar_request_def paystack_initialize_def paystack_verify_def paypal_create_order_def
      paypal_capture_def stripe_create_payment_intent_def payment_request_errors_def
      isNumeric_def check_def save_new_payment_def save_payment_def validate_payment_def
      payment_currencies_def payment_methods_def payment_statuses_def paystack_statuses_def
      replace_doc_def findById_def correlation_sound_def correlation_consistent_def Let_def)

text \<open>
  The claim as the spec states it fails: Paystack cannot be reached when John
  initialises a payment. The answer is 500, and the payment stored before the call
  stays, a Paystack payment with no reference.
\<close>

theorem paystack_payment_without_reference:
  "http_status (fst (paystack_initialize (Some (Throws ''connect ETIMEDOUT'')) ''p1'' john
      naira_request [])) = 500 \<and>
   map paymentMethod (snd (paystack_initialize (Some (Throws ''connect ETIMEDOUT'')) ''p1''
      john naira_request [])) = [''paystack''] \<and>
   map paystackReference (snd (paystack_initialize (Some (Throws ''connect ETIMEDOUT''))
      ''p1'' john naira_request [])) = [None] \<and>
   \<not> list_all correlation_consistent
       (snd (paystack_initialize (Some (Throws ''connect ETIMEDOUT'')) ''p1'' john
          naira_request []))"
  by (simp add: john_def naira_request_def paystack_initialize_def
      payment_request_errors_def isNumeric_def check_def save_new_payment_def
      validate_payment_def payment_currencies_def payment_methods_def payment_statuses_def
      correlation_consistent_def Let_def)

text \<open>
  Nor does an answer of 200 guarantee the reference: the handler copies what the
  provider's answer carries, also when it carries none.
\<close>

lemma initialisation_answered_without_reference:
  "paystack_initialize
     (Some (Returns \<lparr>init_status = True, init_message = Some ''Authorization URL created'',
                      init_response_data =
                        Some \<lparr>reference = None,
                              authorization_url = ''https://checkout.paystack.com/0peioxfhpn'',
                              access_code = ''0peioxfhpn''\<rparr>\<rparr>))
     ''p0'' john naira_request [] =
   (Reply 200 True None []
      (Some (\<lparr>reference = None,
               authorization_url = ''https://checkout.paystack.com/0peioxfhpn'',
               access_code = ''0peioxfhpn''\<rparr>, ''p0'')),
    [unreferenced_payment])"
  by (simp add: unreferenced_payment_def john_def naira_request_def paystack_initialize_def
      payment_request_errors_def isNumeric_def check_def save_new_payment_def save_payment_def
      validate_payment_def payment_currencies_def payment_methods_def payment_statuses_def
      replace_doc_def Let_def)

subsection \<open>Further properties of the same handlers\<close>

text \<open>
  For a status that the schema admits for \<open>paystackStatus\<close>, verification leaves the
  stored payment \<open>completed\<close> exactly when the provider reports \<open>success\<close> and \<open>failed\<close>
  otherwise, and stamps \<open>completedAt\<close> with the current time only in the first case.
\<close>

theorem verify_maps_admitted_status:
  assumes "ref \<noteq> []"
    and "findById payment_id i ps = Some p"
    and "validate_payment p"
    and "t_metadata t = Some (Some i)"
    and "t_status t \<in> set paystack_statuses"
  shows "map_option payment.status (findById payment_id i (fst (snd (paystack_verify
            (Some (Returns \<lparr>verify_status = True, verify_message = vm,
                             verify_response_data = Some t\<rparr>)) io now u ref ps)))) =
           Some (if t_status t = ''success'' then ''completed'' else ''failed'') \<and>
         map_option payment.completedAt (findById payment_id i (fst (snd (paystack_verify
            (Some (Returns \<lparr>verify_status = True, verify_message = vm,
                             verify_response_data = Some t\<rparr>)) io now u ref ps)))) =
           Some (if t_status t = ''success'' then Some now else payment.completedAt p)"
proof -
  from assms(2) have idp: "payment_id p = i" by (auto dest: findById_Some)
  show ?thesis
    using assms idp
    by (auto simp: paystack_verify_def check_def save_payment_def validate_payment_def
        payment_statuses_def findById_replace_doc Let_def)
qed

theorem verify_maps_admitted_status_witness:
  "''p1'' \<noteq> [] \<and> findById payment_id ''p1'' [pending_payment] = Some pending_payment \<and>
   validate_payment pending_payment \<and> ''success'' \<in> set paystack_statuses \<and>
   fst (snd (paystack_verify (verified ''success'') (Some []) 2000 john ''p1''
      [pending_payment])) =
     [pending_payment\<lparr>payment.status := ''completed'',
        paystackTransactionId := Some ''4099260516'', paystackStatus := Some ''success'',
        payment.completedAt := Some 2000\<rparr>] \<and>
   fst (snd (paystack_verify (verified ''abandoned'') (Some []) 2000 john ''p1''
      [pending_payment])) =
     [pending_payment\<lparr>payment.status := ''failed'',
        paystackTransactionId := Some ''4099260516'',
        paystackStatus := Some ''abandoned''\<rparr>]"
  using verify_maps_admitted_status
          [of "''p1''" "''p1''" "[pending_payment]" pending_payment
              "\<lparr>t_id = ''4099260516'', t_status = ''success'', t_amount = 500000,
                t_currency = ''NGN'', t_metadata = Some (Some ''p1'')\<rparr>"
              "Some ''Verification successful''" "Some []" 2000 john]
  by (simp add: verified_def pending_payment_def john_def paystack_verify_def check_def
      findById_def replace_doc_def save_payment_def validate_payment_def payment_currencies_def
      payment_methods_def payment_statuses_def paystack_statuses_def)

text \<open>
  When a location is saved as primary with its \<open>isPrimary\<close> path modified (a new
  primary location, or a stored one that was not primary before), no other stored
  location of the same user and type is primary afterwards.
\<close>

theorem new_primary_clears_others:
  "(save_new_location this ls = Inr ls' \<and> isPrimary this \<longrightarrow>
      (\<forall>l \<in> set ls'. location.user l = location.user this \<and>
          location_type l = location_type this \<and> location_id l \<noteq> location_id this \<longrightarrow>
          \<not> isPrimary l)) \<and>
   (save_location orig this ls = Inr ls'' \<and> isPrimary this \<and> \<not> isPrimary orig \<longrightarrow>
      (\<forall>l \<in> set ls''. location.user l = location.user this \<and>
          location_type l = location_type this \<and> location_id l \<noteq> location_id this \<longrightarrow>
          \<not> isPrimary l))"
  by (auto simp: save_new_location_def save_location_def replace_doc_def
      dest: pre_save_location_clears split: if_splits)

theorem new_primary_clears_others_witness:
  "create_location (Some []) ''l3'' john second_home [home_location, work_location] =
     (Reply 201 True (Some ''Location shared successfully'') []
        (Some \<lparr>location_id = ''l3'', user = ''u1'', name = Some ''Flat'', description = None,
                latitude = 6.45, longitude = 3.39, location_type = ''home'',
                isActive = True, isPrimary = True, isVisibleToAdmins = True\<rparr>),
      [home_location\<lparr>isPrimary := False\<rparr>, work_location,
       \<lparr>location_id = ''l3'', user = ''u1'', name = Some ''Flat'', description = None,
        latitude = 6.45, longitude = 3.39, location_type = ''home'',
        isActive = True, isPrimary = True, isVisibleToAdmins = True\<rparr>],
      [\<lparr>emit_target = Room ''admin-room'', emit_event = ''location-update'',
         emit_subject = ''l3''\<rparr>,
       \<lparr>emit_target = Everyone, emit_event = ''admin-submission-received'',
         emit_subject = ''l3''\<rparr>]) \<and>
   one_primary (fst (snd (create_location (Some []) ''l3'' john second_home
      [home_location, work_location])))"
  using new_primary_clears_others
          [of "\<lparr>location_id = ''l3'', user = ''u1'', name = Some ''Flat'', description = None,
                latitude = 6.45, longitude = 3.39, location_type = ''home'',
                isActive = True, isPrimary = True, isVisibleToAdmins = True\<rparr>"
              "[home_location, work_location]"
              "[home_location\<lparr>isPrimary := False\<rparr>, work_location,
                \<lparr>location_id = ''l3'', user = ''u1'', name = Some ''Flat'', description = None,
                 latitude = 6.45, longitude = 3.39, location_type = ''home'',
                 isActive = True, isPrimary = True, isVisibleToAdmins = True\<rparr>]"]
  by (simp add: john_def home_location_def work_location_def second_home_def
      create_location_def create_location_errors_def save_new_location_def
      pre_save_location_def validate_location_def location_types_def check_def isLength_def
      trim_def is_space_def findById_def one_primary_def primaries_def Let_def)

text \<open>
  \<open>sendAutoReply\<close> builds the auto-reply with \<open>sender: null\<close>, and \<open>sender\<close> is a
  required path of the schema: the save is refused, the error is caught, and the
  answer is null. No auto-reply is ever stored.
\<close>

theorem auto_reply_is_never_stored:
  "sendAutoReply now fresh userId ms = (None, ms)"
  by (simp add: sendAutoReply_def save_new_message_def validate_message_def Let_def
      split: option.split)

end
